theory Spec2Isabelle
  imports Complex_Main
begin

section \<open>Vulkan matrix multiplication (ATen/native/vulkan/ops/Mm.cpp)\<close>

text \<open>
  A shallow embedding of the eligibility checks, the weight and bias packing, the
  prepacked linear context and the kernel dispatch of \<^verbatim>\<open>Mm.cpp\<close>.

  Conventions. A dimension size is an \<^verbatim>\<open>int64_t\<close> that a tensor keeps
  non-negative; it is a \<^typ>\<open>nat\<close> here, and products of sizes are assumed to fit
  64 bits as they do for every tensor that exists in memory. A \<^verbatim>\<open>float\<close> or
  \<^verbatim>\<open>double\<close> that the code only stores, copies or passes on is a \<^typ>\<open>real\<close>;
  no floating point arithmetic is modelled. Every \<^verbatim>\<open>TORCH_CHECK\<close> and
  \<^verbatim>\<open>TORCH_INTERNAL_ASSERT\<close> of the file is a value \<open>Inl e\<close> of the result
  type. What can fail inside the tensor library and the Vulkan runtime (an allocation,
  a data pointer asked for another element type, the execution of a shader) is outside
  the file and is not modelled, but for the accessors named below.
\<close>

subsection \<open>Tensors\<close>

datatype ScalarType = kFloat | kQInt8 | kQUInt8 | kQInt32 | kHalf | kInt

datatype DeviceType = CPU | Vulkan | CUDA

datatype GPUMemoryLayout =
  TENSOR_WIDTH_PACKED | TENSOR_HEIGHT_PACKED | TENSOR_CHANNELS_PACKED

text \<open>
  One record stands for both views of a tensor, \<^verbatim>\<open>at::Tensor\<close> and the
  \<^verbatim>\<open>vTensor\<close> behind a Vulkan tensor, so \<^verbatim>\<open>convert\<close> (Utils.h)
  between the two is the identity. \<open>is_quantized\<close> is \<^verbatim>\<open>Tensor::is_quantized()\<close>;
  \<open>v_is_quantized\<close>, \<open>gpu_memory_layout\<close>, \<open>q_scale\<close> and \<open>q_zero_point\<close>
  are the fields of the \<^verbatim>\<open>vTensor\<close> (for a host tensor: of the image a device
  copy of it gets). \<open>elems\<close> is the logical content in contiguous row-major order,
  empty for an image nothing has been written to.
\<close>

record Tensor =
  sizes :: "nat list"
  elems :: "real list"
  device :: DeviceType
  scalar_type :: ScalarType
  requires_grad :: bool
  is_quantized :: bool
  v_is_quantized :: bool
  gpu_memory_layout :: GPUMemoryLayout
  q_scale :: real
  q_zero_point :: int

text \<open>
  \<^verbatim>\<open>c10::optional<Tensor>\<close>: no value, a value that is an undefined tensor, or a
  defined tensor.
\<close>

datatype optional_Tensor = nullopt | undefined_Tensor | some_Tensor Tensor

datatype error =
    IndexError
  | InputPackingQuantized
  | InputPackingNot2D
  | InputNotOnVulkan
  | InputNotWidthPacked
  | WeightPackingQuantized
  | WeightPackingNot2D
  | WeightNotOnVulkan
  | WeightNotHeightPacked
  | BatchWeightNot3D
  | InputDimBelow2
  | BatchInputNot3D
  | LinearNotAvailable
  | LinearNotUsable
  | QuantizedWithUnquantizedInput
  | NonQuantizedWithUnpackedWeight
  | CastOutOfRange
  | UndefinedTensorAccess
  | ReshapeInvalid

definition ndimension :: "Tensor \<Rightarrow> nat" where
  "ndimension t = length (sizes t)"

definition is_cpu :: "Tensor \<Rightarrow> bool" where
  "is_cpu t = (device t = CPU)"

definition is_vulkan :: "Tensor \<Rightarrow> bool" where
  "is_vulkan t = (device t = Vulkan)"

text \<open>
  \<^verbatim>\<open>Tensor::size(d)\<close> for \<open>d \<ge> 0\<close> raises an index error when the tensor has no
  axis \<open>d\<close>. Where the code guards the call by a test of the rank in the same
  short-circuit conjunction, the models below read \<open>sizes t ! d\<close> directly.
\<close>

definition size_checked :: "Tensor \<Rightarrow> nat \<Rightarrow> error + nat" where
  "size_checked t d = (if d < length (sizes t) then Inr (sizes t ! d) else Inl IndexError)"

text \<open>
  The axis indices \<^verbatim>\<open>Layout::Parameter\<close> and \<^verbatim>\<open>Layout::BatchMatrices\<close>
  are declared in Common.h, which is not among the sources. A matrix is
  (height, width) and a batch of matrices is (batch, height, width), as the error text
  of \<^verbatim>\<open>pack_weights\<close> ("3 dimensions: batch, height, width") and the shape
  \<open>(rows(input), cols(weight))\<close> of the output (spec, section 4.4) say.
\<close>

text \<open>Modelled from the spec: \<^verbatim>\<open>Layout::Parameter::height\<close>, the first axis of a matrix.\<close>

definition Parameter_height :: nat where "Parameter_height = 0"

text \<open>Modelled from the spec: \<^verbatim>\<open>Layout::Parameter::width\<close>, the second axis of a matrix.\<close>

definition Parameter_width :: nat where "Parameter_width = 1"

text \<open>Modelled from the spec: \<^verbatim>\<open>Layout::BatchMatrices::batch\<close>, the first axis of a batch.\<close>

definition BatchMatrices_batch :: nat where "BatchMatrices_batch = 0"

text \<open>Modelled from the spec: \<^verbatim>\<open>Layout::BatchMatrices::height\<close>, the second axis of a batch.\<close>

definition BatchMatrices_height :: nat where "BatchMatrices_height = 1"

text \<open>Modelled from the spec: \<^verbatim>\<open>Layout::BatchMatrices::width\<close>, the third axis of a batch.\<close>

definition BatchMatrices_width :: nat where "BatchMatrices_width = 2"

text \<open>
  What the code takes from outside this file and the model keeps as parameters: the
  process-wide \<^verbatim>\<open>api::available()\<close> and
  \<^verbatim>\<open>at::globalContext().releaseWeightsWhenPrepacking()\<close>, and the image
  extents \<^verbatim>\<open>vTensor::extents()\<close> computes (api/Tensor.h).
\<close>

type_synonym uvec3 = "nat \<times> nat \<times> nat"

record Environment =
  api_available :: bool
  releaseWeightsWhenPrepacking :: bool
  extents :: "Tensor \<Rightarrow> uvec3"

subsection \<open>Eligibility: available\<close>

definition available_check_with_batch :: "Tensor \<Rightarrow> optional_Tensor \<Rightarrow> error + bool" where
  "available_check_with_batch weight bias =
    (let weight_available =
           (3 = ndimension weight \<and>
            sizes weight ! BatchMatrices_batch > 0 \<and>
            sizes weight ! BatchMatrices_height > 0 \<and>
            sizes weight ! BatchMatrices_width > 0 \<and>
            (is_cpu weight \<or> Vulkan = device weight) \<and>
            kFloat = scalar_type weight \<and> \<not> requires_grad weight)
     in if \<not> weight_available then Inr False
        else case bias of
          nullopt \<Rightarrow> Inr True
        | undefined_Tensor \<Rightarrow> Inr True
        | some_Tensor b \<Rightarrow>
            (let bias_available0 =
                   (ndimension b > 0 \<and>
                    (is_cpu b \<or> Vulkan = device b) \<and>
                    kFloat = scalar_type b)
             in if ndimension b = 3 then
                  Inr (bias_available0 \<and>
                       (sizes b ! BatchMatrices_width = sizes weight ! BatchMatrices_width \<or>
                        sizes b ! BatchMatrices_width = 1) \<and>
                       (sizes b ! BatchMatrices_batch = sizes weight ! BatchMatrices_batch \<or>
                        sizes b ! BatchMatrices_batch = 1) \<and>
                       \<not> requires_grad b)
                else if ndimension b = 2 then
                  Inr (bias_available0 \<and>
                       (sizes b ! BatchMatrices_height = sizes weight ! BatchMatrices_width \<or>
                        sizes b ! BatchMatrices_height = 1) \<and>
                       \<not> requires_grad b)
                else
                  (case size_checked b BatchMatrices_batch of
                     Inl e \<Rightarrow> Inl e
                   | Inr s0 \<Rightarrow>
                       Inr (bias_available0 \<and>
                            (s0 = sizes weight ! BatchMatrices_width \<or> s0 = 1) \<and>
                            \<not> requires_grad b))))"

definition available :: "Environment \<Rightarrow> Tensor \<Rightarrow> optional_Tensor \<Rightarrow> bool \<Rightarrow> error + bool" where
  "available g weight bias use_batch =
    (if \<not> api_available g then Inr False
     else if use_batch then available_check_with_batch weight bias
     else
       let weight_available =
             (2 = ndimension weight \<and>
              sizes weight ! Parameter_height > 0 \<and>
              sizes weight ! Parameter_width > 0 \<and>
              (is_cpu weight \<or> Vulkan = device weight) \<and>
              (kFloat = scalar_type weight \<or> kQInt8 = scalar_type weight) \<and>
              \<not> requires_grad weight)
       in if \<not> weight_available then Inr False
          else Inr (case bias of
                 some_Tensor b \<Rightarrow>
                   (ndimension b > 0 \<and>
                    (is_cpu b \<or> Vulkan = device b) \<and>
                    kFloat = scalar_type b \<and>
                    (if ndimension b > 1
                     then sizes b ! Parameter_width = sizes weight ! Parameter_width
                     else True) \<and>
                    \<not> requires_grad b)
               | _ \<Rightarrow> True))"

subsection \<open>Eligibility: usable\<close>

text \<open>
  Reading an \<^verbatim>\<open>IntArrayRef\<close> or a \<^verbatim>\<open>std::vector\<close> past its end is
  undefined in C++. The models read \<open>xs ! i\<close>, and every theorem that depends on such
  a read assumes the list long enough, as the shape of a weight that \<open>available\<close>
  accepted is.
\<close>

definition usable_check_with_batch :: "Tensor \<Rightarrow> nat list \<Rightarrow> bool" where
  "usable_check_with_batch input unpacked_weight_sizes =
    (3 = ndimension input \<and>
     Vulkan = device input \<and>
     kFloat = scalar_type input \<and>
     sizes input ! BatchMatrices_width = unpacked_weight_sizes ! BatchMatrices_height \<and>
     sizes input ! BatchMatrices_batch = unpacked_weight_sizes ! BatchMatrices_batch \<and>
     \<not> requires_grad input \<and> True)"

definition usable :: "Tensor \<Rightarrow> nat list \<Rightarrow> bool \<Rightarrow> bool" where
  "usable input unpacked_weight_sizes use_batch =
    (if use_batch then usable_check_with_batch input unpacked_weight_sizes
     else
       let v_input = input
       in (2 = ndimension input \<and>
           Vulkan = device input \<and>
           (kFloat = scalar_type input \<or>
            (v_is_quantized v_input \<and>
             (kQUInt8 = scalar_type input \<or> kQInt8 = scalar_type input))) \<and>
           sizes input ! Parameter_width = unpacked_weight_sizes ! Parameter_height \<and>
           \<not> requires_grad input \<and> True))"

subsection \<open>Helpers declared outside Mm.cpp\<close>

text \<open>Sequencing of calls that can raise: the first error ends the computation.\<close>

definition bind_result :: "error + 'a \<Rightarrow> ('a \<Rightarrow> error + 'b) \<Rightarrow> error + 'b" where
  "bind_result r f = (case r of Inl e \<Rightarrow> Inl e | Inr v \<Rightarrow> f v)"

text \<open>
  Modelled from the spec: \<^verbatim>\<open>div_up\<close> is declared in api/Utils.h, which is not among
  the sources. It is the quotient rounded up, the \<open>ceil(n/d)\<close> of the spec's packed
  extents and work-group sizes, in integer arithmetic.
\<close>

definition div_up :: "nat \<Rightarrow> nat \<Rightarrow> nat" where
  "div_up numerator denominator = (numerator + denominator - 1) div denominator"

text \<open>
  Modelled from the spec: \<^verbatim>\<open>safe_downcast\<close> is declared in api/Utils.h, which is
  not among the sources. It is a checked narrowing conversion: the value when the
  target type holds it, a raised error otherwise, so that a call fails before anything
  is submitted (spec, section 7). Here to \<^verbatim>\<open>uint32_t\<close>, from a size.
\<close>

definition safe_downcast_uint32 :: "nat \<Rightarrow> error + nat" where
  "safe_downcast_uint32 v = (if v < 2 ^ 32 then Inr v else Inl CastOutOfRange)"

text \<open>
  Modelled from the spec: \<^verbatim>\<open>safe_downcast\<close> to \<^verbatim>\<open>int32_t\<close>, the same checked
  narrowing (api/Utils.h is not among the sources).
\<close>

definition safe_downcast_int32 :: "int \<Rightarrow> error + int" where
  "safe_downcast_int32 v =
    (if - (2 ^ 31) \<le> v \<and> v < 2 ^ 31 then Inr v else Inl CastOutOfRange)"

text \<open>The largest finite \<^verbatim>\<open>float\<close>, \<^verbatim>\<open>(2 - 2^(-23)) * 2^127\<close>.\<close>

definition FLT_MAX :: real where
  "FLT_MAX = (2 ^ 24 - 1) * 2 ^ 104"

text \<open>
  Modelled from the spec: \<^verbatim>\<open>safe_downcast\<close> to \<^verbatim>\<open>float\<close>, from a
  \<^verbatim>\<open>double\<close>, the same checked narrowing (api/Utils.h is not among the sources);
  the rounding to the nearest float is not modelled.
\<close>

definition safe_downcast_float :: "real \<Rightarrow> error + real" where
  "safe_downcast_float v =
    (if - FLT_MAX \<le> v \<and> v \<le> FLT_MAX then Inr v else Inl CastOutOfRange)"

text \<open>
  Modelled from the spec: the tensor type is an external collaborator "supporting device
  transfer, contiguity, reshape" (spec, section 6). \<^verbatim>\<open>Tensor::vulkan()\<close> requests a
  device copy: the placement changes and nothing else. (\<^verbatim>\<open>Tensor::contiguous()\<close>
  keeps the logical content, which is all the record holds, so the models leave it out.)
\<close>

definition vulkan :: "Tensor \<Rightarrow> Tensor" where
  "vulkan t = t\<lparr>device := Vulkan\<rparr>"

text \<open>
  Modelled from the spec: \<^verbatim>\<open>Tensor::reshape\<close> of the external tensor type (spec,
  section 6) gives the same elements a new shape, and raises when the number of
  elements differs.
\<close>

definition reshape :: "Tensor \<Rightarrow> nat list \<Rightarrow> error + Tensor" where
  "reshape t shape =
    (if prod_list shape = prod_list (sizes t) then Inr (t\<lparr>sizes := shape\<rparr>)
     else Inl ReshapeInvalid)"

text \<open>
  Modelled from the spec: the \<^verbatim>\<open>vTensor\<close> constructor (api/Tensor.h) called with a
  context, sizes and a dtype allocates a device image of these sizes in the default
  channels-packed layout, not quantized, with nothing written to it yet.
\<close>

definition new_vTensor :: "nat list \<Rightarrow> ScalarType \<Rightarrow> Tensor" where
  "new_vTensor dst_sizes dtype =
    \<lparr>sizes = dst_sizes, elems = [], device = Vulkan, scalar_type = dtype,
     requires_grad = False, is_quantized = False, v_is_quantized = False,
     gpu_memory_layout = TENSOR_CHANNELS_PACKED, q_scale = 1, q_zero_point = 0\<rparr>"

text \<open>
  Modelled from the spec: the image-relayout primitives of impl/Packing.h re-layout a
  channels-packed image to the layout their name says ("an external collaborator", spec,
  section 4.1). Only the layout tag changes; the logical content stays. Here to the
  width-packed layout.
\<close>

definition convert_image_channels_packed_to_width_packed :: "Tensor \<Rightarrow> Tensor" where
  "convert_image_channels_packed_to_width_packed v =
    v\<lparr>gpu_memory_layout := TENSOR_WIDTH_PACKED\<rparr>"

text \<open>
  Modelled from the spec: the image-relayout primitive of impl/Packing.h to the
  height-packed layout; again only the layout tag changes.
\<close>

definition convert_image_channels_packed_to_height_packed :: "Tensor \<Rightarrow> Tensor" where
  "convert_image_channels_packed_to_height_packed v =
    v\<lparr>gpu_memory_layout := TENSOR_HEIGHT_PACKED\<rparr>"

subsection \<open>Packing\<close>

definition pack_inputs_using_height_packing :: "Tensor \<Rightarrow> error + Tensor" where
  "pack_inputs_using_height_packing input_arg =
    (if is_quantized input_arg then Inl InputPackingQuantized
     else if ndimension input_arg \<noteq> 2 then Inl InputPackingNot2D
     else
       let input = (if is_cpu input_arg then vulkan input_arg else input_arg)
       in if \<not> is_vulkan input then Inl InputNotOnVulkan
          else
            let v_input =
                  (if gpu_memory_layout input = TENSOR_CHANNELS_PACKED
                   then convert_image_channels_packed_to_width_packed input
                   else input)
            in if gpu_memory_layout v_input \<noteq> TENSOR_WIDTH_PACKED
               then Inl InputNotWidthPacked
               else Inr v_input)"

definition pack_weights_using_height_packing :: "Tensor \<Rightarrow> error + Tensor" where
  "pack_weights_using_height_packing weight_arg =
    (if is_quantized weight_arg then Inl WeightPackingQuantized
     else if ndimension weight_arg \<noteq> 2 then Inl WeightPackingNot2D
     else
       let weight = (if is_cpu weight_arg then vulkan weight_arg else weight_arg)
       in if \<not> is_vulkan weight then Inl WeightNotOnVulkan
          else
            let v_weight =
                  (if gpu_memory_layout weight = TENSOR_CHANNELS_PACKED
                   then convert_image_channels_packed_to_height_packed weight
                   else weight)
            in if gpu_memory_layout v_weight \<noteq> TENSOR_HEIGHT_PACKED
               then Inl WeightNotHeightPacked
               else Inr v_weight)"

text \<open>
  Modelled from the spec: \<^verbatim>\<open>stage_pack_weights\<close> is declared in Mm.h, which is not
  among the sources. Spec, section 4.1: "write zero-initialized destination, then copy
  each source element to its tiled destination position", element \<open>(h, w)\<close> to channel
  \<open>2*(h%2)+(w%2)\<close>, plane \<open>(h/2, w/2)\<close>; "batched variant carries a batch stride in
  both source and destination addressing". The destination is the staging buffer of the
  image of sizes \<open>(batch, 4, dst_kh_sz, dst_kw_sz)\<close>.
\<close>

definition stage_pack_weights ::
    "real list \<Rightarrow> nat \<Rightarrow> nat \<Rightarrow> nat \<Rightarrow> nat \<Rightarrow> nat \<Rightarrow> real list" where
  "stage_pack_weights src src_kb_sz src_kh_sz src_kw_sz dst_kh_sz dst_kw_sz =
    (let src_matrix_sz = src_kw_sz * src_kh_sz;
         dst_plane_sz = dst_kw_sz * dst_kh_sz;
         dst_matrix_sz = dst_plane_sz * 4
     in fold (\<lambda>src_b. fold (\<lambda>src_h. fold (\<lambda>src_w dst.
            let dst_plane = 2 * (src_h mod 2) + src_w mod 2;
                dst_index = (src_h div 2) * dst_kw_sz + src_w div 2
            in dst[src_b * dst_matrix_sz + dst_plane * dst_plane_sz + dst_index :=
                     src ! (src_b * src_matrix_sz + src_h * src_kw_sz + src_w)])
          [0..<src_kw_sz]) [0..<src_kh_sz]) [0..<src_kb_sz]
          (replicate (src_kb_sz * 4 * dst_kh_sz * dst_kw_sz) 0))"

definition pack_weights :: "Tensor \<Rightarrow> bool \<Rightarrow> error + Tensor" where
  "pack_weights weight_arg use_batch =
    (if \<not> is_quantized weight_arg \<and> \<not> use_batch
     then pack_weights_using_height_packing weight_arg
     else
       let quantized = (scalar_type weight_arg = kQInt8 \<or> scalar_type weight_arg = kQUInt8);
           weight = weight_arg;
           w_sizes = sizes weight
       in if use_batch \<and> length w_sizes \<noteq> 3 then Inl BatchWeightNot3D
          else
            let src_kb_sz = (if use_batch then w_sizes ! BatchMatrices_batch else 1);
                src_kw_sz = (if use_batch then w_sizes ! BatchMatrices_width
                             else w_sizes ! Parameter_width);
                src_kh_sz = (if use_batch then w_sizes ! BatchMatrices_height
                             else w_sizes ! Parameter_height);
                dst_kb_sz = src_kb_sz;
                dst_kw_sz = div_up src_kw_sz 2;
                dst_kh_sz = div_up src_kh_sz 2;
                dst_vtensor_sizes = [dst_kb_sz, 4, dst_kh_sz, dst_kw_sz];
                v_weight0 = new_vTensor dst_vtensor_sizes (scalar_type weight_arg);
                v_weight =
                  (if quantized
                   then v_weight0\<lparr>v_is_quantized := True, q_scale := q_scale weight_arg,
                                  q_zero_point := q_zero_point weight_arg\<rparr>
                   else v_weight0)
            in if quantized \<or> use_batch
               then Inr (v_weight\<lparr>elems :=
                      stage_pack_weights (elems weight) src_kb_sz src_kh_sz src_kw_sz
                        dst_kh_sz dst_kw_sz\<rparr>)
               else Inr v_weight)"

text \<open>
  The staged copy of \<^verbatim>\<open>pack_biases\<close> (the \<^verbatim>\<open>memset\<close> and the three loops):
  the staging buffer it leaves, from the bias elements \<open>src\<close>. A height of 1 is read
  for two rows, and in batch mode a width of 1 for two columns. A \<^verbatim>\<open>memcpy\<close>
  is a list update; that every write of a valid element lies inside the buffer is part
  of what is proved below.
\<close>

definition stage_pack_biases :: "bool \<Rightarrow> real list \<Rightarrow> nat \<Rightarrow> nat \<Rightarrow> nat \<Rightarrow> real list" where
  "stage_pack_biases use_batch src src_kb_sz src_kh_sz src_kw_sz =
    (let src_matrix_sz = src_kw_sz * src_kh_sz;
         dst_kw_sz = div_up src_kw_sz 2;
         dst_kh_sz = div_up src_kh_sz 2;
         dst_plane_sz = dst_kw_sz * dst_kh_sz;
         dst_matrix_sz = dst_plane_sz * 4
     in fold (\<lambda>src_b. fold (\<lambda>src_h. fold (\<lambda>src_w dst.
            let dst_plane = 2 * (src_h mod 2) + src_w mod 2;
                dst_index = (src_h div 2) * dst_kw_sz + src_w div 2
            in dst[src_b * dst_matrix_sz + dst_plane * dst_plane_sz + dst_index :=
                     src ! (src_b * src_matrix_sz +
                            (if src_kh_sz = 1 then 0 else src_h * src_kw_sz) +
                            (if use_batch \<and> src_kw_sz = 1 then 0 else src_w))])
          [0..<(if use_batch \<and> src_kw_sz = 1 then 2 else src_kw_sz)])
          [0..<(if src_kh_sz = 1 then 2 else src_kh_sz)]) [0..<src_kb_sz]
          (replicate (src_kb_sz * 4 * dst_kh_sz * dst_kw_sz) 0))"

text \<open>
  In \<^verbatim>\<open>pack_biases\<close> an optional that holds an undefined tensor is not on the
  Vulkan device and is then asked for its contiguous copy and its sizes, which the tensor
  library refuses for an undefined tensor. With no bias the image has the one element 0.
  Outside batch mode a host float bias is moved to the device as it is; the other host
  biases are staged, outside batch mode with source sizes 0.
\<close>

definition pack_biases :: "Tensor \<Rightarrow> optional_Tensor \<Rightarrow> bool \<Rightarrow> error + Tensor" where
  "pack_biases weight_arg bias_arg use_batch =
    (case bias_arg of
       nullopt \<Rightarrow> Inr ((new_vTensor [1] (scalar_type weight_arg))\<lparr>elems := [0]\<rparr>)
     | undefined_Tensor \<Rightarrow> Inl UndefinedTensorAccess
     | some_Tensor bias \<Rightarrow>
         if is_vulkan bias then Inr bias
         else if \<not> use_batch \<and> scalar_type bias = kFloat then Inr (vulkan bias)
         else
           let b_sizes = sizes bias;
               (src_kb_sz, src_kw_sz, src_kh_sz) =
                 (if use_batch then
                    if length b_sizes = 3 then
                      (b_sizes ! BatchMatrices_batch, b_sizes ! BatchMatrices_width,
                       b_sizes ! BatchMatrices_height)
                    else if length b_sizes = 2 then
                      (1, b_sizes ! BatchMatrices_height, b_sizes ! BatchMatrices_batch)
                    else (1, b_sizes ! BatchMatrices_batch, 1)
                  else (0, 0, 0));
               dst_kw_sz = div_up src_kw_sz 2;
               dst_kh_sz = div_up src_kh_sz 2;
               v_bias = new_vTensor [src_kb_sz, 4, dst_kh_sz, dst_kw_sz] (scalar_type bias)
           in Inr (v_bias\<lparr>elems :=
                     stage_pack_biases use_batch (elems bias) src_kb_sz src_kh_sz src_kw_sz\<rparr>))"

subsection \<open>The prepacked context\<close>

text \<open>
  \<open>packed_\<close> holds the four values in the order of \<^verbatim>\<open>LinearPackedContext::Packed\<close>;
  \<open>unpacked_\<close> is the pair (weight, bias), or nothing when the list stays empty.
\<close>

record LinearPackedContext =
  packed_Weight :: Tensor
  packed_Bias :: Tensor
  packed_WeightSizes :: "nat list"
  packed_BiasDefined :: bool
  unpacked :: "(Tensor \<times> optional_Tensor) option"

definition bias_is_defined :: "optional_Tensor \<Rightarrow> bool" where
  "bias_is_defined bias = (case bias of some_Tensor b \<Rightarrow> True | _ \<Rightarrow> False)"

definition LinearPackedContext_new ::
    "Environment \<Rightarrow> Tensor \<Rightarrow> optional_Tensor \<Rightarrow> bool \<Rightarrow> error + LinearPackedContext" where
  "LinearPackedContext_new env weight bias use_batch =
    bind_result (available env weight bias use_batch) (\<lambda>ok.
      if \<not> ok then Inl LinearNotAvailable
      else
        bind_result (pack_weights weight use_batch) (\<lambda>w.
        bind_result (pack_biases weight bias use_batch) (\<lambda>b.
          Inr \<lparr>packed_Weight = w, packed_Bias = b,
               packed_WeightSizes = sizes weight,
               packed_BiasDefined = bias_is_defined bias,
               unpacked = (if \<not> releaseWeightsWhenPrepacking env
                           then Some (weight, bias) else None)\<rparr>)))"

definition create_linear_context ::
    "Environment \<Rightarrow> Tensor \<Rightarrow> optional_Tensor \<Rightarrow> error + LinearPackedContext" where
  "create_linear_context env weight bias = LinearPackedContext_new env weight bias False"

subsection \<open>Dispatch\<close>

datatype Kernel =
    VK_KERNEL_mm
  | VK_KERNEL_addmm
  | VK_KERNEL_quantized_mm_qint8
  | VK_KERNEL_quantized_mm_quint8
  | VK_KERNEL_quantized_addmm_qint8
  | VK_KERNEL_quantized_addmm_quint8
  | VK_KERNEL_bmm
  | VK_KERNEL_baddbmm

text \<open>
  The parameter blocks, one constructor for each anonymous struct of the code, with the
  fields in the order of the struct and the padding fields left out:
  \<^item> \<open>Block_quantized_addmm\<close>: size, K, um1_size, um2_size, ut_size, multiplier,
    input_scales, out_scale, input_zero_points, out_zero_point;
  \<^item> \<open>Block_addmm\<close>: shader_extents, tensor_row_size, bias_size, multiplier;
  \<^item> \<open>Block_quantized_mm\<close>: size, K, um1_size, um2_size, input_scales, out_scale,
    input_zero_points, out_zero_point;
  \<^item> \<open>Block_mm\<close>: shader_extents, tensor_row_size;
  \<^item> \<open>Block_baddbmm\<close>: size, k, bias_size, multiplier;
  \<^item> \<open>Block_bmm\<close>: size, k.
\<close>

datatype ParameterBlock =
    Block_quantized_addmm uvec3 int uvec3 uvec3 uvec3 "real \<times> real" "real \<times> real" real
      "int \<times> int" int
  | Block_addmm uvec3 nat uvec3 "real \<times> real"
  | Block_quantized_mm uvec3 int uvec3 uvec3 "real \<times> real" real "int \<times> int" int
  | Block_mm uvec3 nat
  | Block_baddbmm uvec3 int uvec3 "real \<times> real"
  | Block_bmm uvec3 int

text \<open>
  One call of \<^verbatim>\<open>submit_compute_job\<close>: the shader, the two work-group sizes, the
  images it binds (the output first) and the parameter block.
\<close>

record ComputeJob =
  shader :: Kernel
  global_work_group_size :: uvec3
  local_work_group_size :: uvec3
  arguments :: "Tensor list"
  params_buffer :: ParameterBlock

text \<open>
  The state that the calls of this file work on: the jobs submitted so far to the Vulkan
  context \<^verbatim>\<open>api::context()\<close>, the latest last, and the prepacked contexts that
  exist behind a \<^verbatim>\<open>c10::intrusive_ptr\<close>, in the order of their allocation. Such a
  pointer is the index of its object in \<open>prepacked\<close>.
\<close>

record Context =
  submitted :: "ComputeJob list"
  prepacked :: "LinearPackedContext list"

definition submit_compute_job :: "ComputeJob \<Rightarrow> Context \<Rightarrow> Context" where
  "submit_compute_job job context = context\<lparr>submitted := submitted context @ [job]\<rparr>"

definition reshape_to_2d :: "Tensor \<Rightarrow> error + Tensor" where
  "reshape_to_2d input_arg =
    (if \<not> ndimension input_arg \<ge> 2 then Inl InputDimBelow2
     else
       let input_sizes = sizes input_arg;
           d = prod_list (butlast input_sizes)
       in reshape input_arg [d, last input_sizes])"

definition addmm_global_size :: "Tensor \<Rightarrow> error + uvec3" where
  "addmm_global_size v_output =
    bind_result (safe_downcast_uint32 (div_up (sizes v_output ! Parameter_width) 4)) (\<lambda>gx.
    bind_result (safe_downcast_uint32 (div_up (sizes v_output ! Parameter_height) 4)) (\<lambda>gy.
      Inr (gx, gy, 1)))"

definition quantized_scales_block ::
    "Tensor \<Rightarrow> Tensor \<Rightarrow> real \<Rightarrow> int \<Rightarrow>
     error + ((real \<times> real) \<times> real \<times> (int \<times> int) \<times> int)" where
  "quantized_scales_block v_input packed_v_weight output_scale output_zero_point =
    bind_result (safe_downcast_float (q_scale v_input)) (\<lambda>s1.
    bind_result (safe_downcast_float (q_scale packed_v_weight)) (\<lambda>s2.
    bind_result (safe_downcast_float output_scale) (\<lambda>so.
    bind_result (safe_downcast_int32 (q_zero_point v_input)) (\<lambda>z1.
    bind_result (safe_downcast_int32 (q_zero_point packed_v_weight)) (\<lambda>z2.
    bind_result (safe_downcast_int32 output_zero_point) (\<lambda>zo.
      Inr ((s1, s2), so, (z1, z2), zo)))))))"

text \<open>
  The choice of the shader and of its parameter block in \<^verbatim>\<open>run_addmm_context\<close>
  (the two branches on \<open>bias_defined\<close>, each with its branch on \<open>quantized\<close>).
\<close>

definition addmm_shader_and_params ::
    "Environment \<Rightarrow> bool \<Rightarrow> bool \<Rightarrow> Tensor \<Rightarrow> Tensor \<Rightarrow> Tensor \<Rightarrow> Tensor \<Rightarrow> Tensor \<Rightarrow>
     real \<Rightarrow> real \<Rightarrow> real \<Rightarrow> int \<Rightarrow> error + (Kernel \<times> ParameterBlock)" where
  "addmm_shader_and_params env bias_defined quantized input_arg v_output v_input
      packed_v_weight packed_v_bias alpha beta output_scale output_zero_point =
    (if bias_defined then
       if quantized then
         bind_result (safe_downcast_int32
             (int (div_up (sizes v_input ! Parameter_width) 2))) (\<lambda>K.
         bind_result (quantized_scales_block v_input packed_v_weight
             output_scale output_zero_point) (\<lambda>(scales, so, zps, zo).
           Inr (if kQInt8 = scalar_type input_arg
                then VK_KERNEL_quantized_addmm_qint8
                else VK_KERNEL_quantized_addmm_quint8,
                Block_quantized_addmm (extents env v_output) K
                  (extents env v_input) (extents env packed_v_weight)
                  (extents env packed_v_bias) (alpha, beta) scales so zps zo)))
       else
         Inr (VK_KERNEL_addmm,
              Block_addmm (extents env v_output) (fst (extents env v_input))
                (extents env packed_v_bias) (alpha, beta))
     else
       if quantized then
         bind_result (safe_downcast_int32
             (int (div_up (sizes v_input ! Parameter_width) 2))) (\<lambda>K.
         bind_result (quantized_scales_block v_input packed_v_weight
             output_scale output_zero_point) (\<lambda>(scales, so, zps, zo).
           Inr (if kQInt8 = scalar_type input_arg
                then VK_KERNEL_quantized_mm_qint8
                else VK_KERNEL_quantized_mm_quint8,
                Block_quantized_mm (extents env v_output) K
                  (extents env v_input) (extents env packed_v_weight)
                  scales so zps zo)))
       else
         Inr (VK_KERNEL_mm,
              Block_mm (extents env v_output) (fst (extents env v_input))))"

definition run_addmm_context ::
    "Environment \<Rightarrow> Tensor \<Rightarrow> real \<Rightarrow> real \<Rightarrow> LinearPackedContext \<Rightarrow> bool \<Rightarrow> real \<Rightarrow> int \<Rightarrow>
     Context \<Rightarrow> error + (Tensor \<times> Context)" where
  "run_addmm_context env input_arg alpha beta linear_context quantized output_scale
      output_zero_point context =
    bind_result
      (if ndimension input_arg = 2 then Inr input_arg else reshape_to_2d input_arg)
      (\<lambda>input_arg_2d.
    let input = (if is_vulkan input_arg_2d then input_arg_2d else vulkan input_arg_2d)
    in bind_result (pack_inputs_using_height_packing input) (\<lambda>v_input.
    let packed_v_weight = packed_Weight linear_context;
        packed_v_bias = packed_Bias linear_context;
        unpacked_weight_sizes = packed_WeightSizes linear_context;
        bias_defined = packed_BiasDefined linear_context
    in if \<not> usable input unpacked_weight_sizes False then Inl LinearNotUsable
       else if \<not> (\<not> quantized \<or>
                    (v_is_quantized packed_v_weight \<and> v_is_quantized v_input))
       then Inl QuantizedWithUnquantizedInput
       else if \<not> (quantized \<or>
                    gpu_memory_layout packed_v_weight = TENSOR_HEIGHT_PACKED)
       then Inl NonQuantizedWithUnpackedWeight
       else
         let v_output0 =
               new_vTensor [sizes input_arg_2d ! Parameter_height,
                            unpacked_weight_sizes ! Parameter_width]
                 (scalar_type input_arg);
             v_output =
               (if quantized
                then v_output0\<lparr>v_is_quantized := True, q_scale := output_scale,
                               q_zero_point := output_zero_point\<rparr>
                else v_output0)
         in bind_result
              (addmm_shader_and_params env bias_defined quantized input_arg v_output
                 v_input packed_v_weight packed_v_bias alpha beta output_scale
                 output_zero_point)
              (\<lambda>(compute_shader, params).
            bind_result (addmm_global_size v_output) (\<lambda>global_size.
            let context' =
                  submit_compute_job
                    \<lparr>shader = compute_shader,
                     global_work_group_size = global_size,
                     local_work_group_size = (8, 8, 1),
                     arguments =
                       (if bias_defined
                        then [v_output, v_input, packed_v_weight, packed_v_bias]
                        else [v_output, v_input, packed_v_weight]),
                     params_buffer = params\<rparr> context;
                output = v_output
            in if ndimension input_arg = 2 then Inr (output, context')
               else
                 let shape = map (\<lambda>i. sizes input_arg ! i) [0..<ndimension input_arg - 1]
                             @ [last (sizes output)]
                 in bind_result (reshape output shape) (\<lambda>r. Inr (r, context'))))))"

definition baddbmm_global_size :: "Tensor \<Rightarrow> nat list \<Rightarrow> error + uvec3" where
  "baddbmm_global_size v_input unpacked_weight_sizes =
    bind_result (safe_downcast_uint32
        (div_up (unpacked_weight_sizes ! BatchMatrices_width) 2)) (\<lambda>gx.
    bind_result (safe_downcast_uint32
        (div_up (sizes v_input ! BatchMatrices_height) 2)) (\<lambda>gy.
    bind_result (safe_downcast_uint32
        (div_up (sizes v_input ! BatchMatrices_batch) 4)) (\<lambda>gz.
      Inr (gx, gy, gz))))"

definition run_baddbmm_context ::
    "Environment \<Rightarrow> Tensor \<Rightarrow> real \<Rightarrow> real \<Rightarrow> LinearPackedContext \<Rightarrow> Context \<Rightarrow>
     error + (Tensor \<times> Context)" where
  "run_baddbmm_context env input_arg alpha beta linear_context context =
    (if ndimension input_arg \<noteq> 3 then Inl BatchInputNot3D
     else
       let input = (if is_vulkan input_arg then input_arg else vulkan input_arg);
           v_input = input;
           packed_v_weight = packed_Weight linear_context;
           packed_v_bias = packed_Bias linear_context;
           unpacked_weight_sizes = packed_WeightSizes linear_context;
           bias_defined = packed_BiasDefined linear_context
       in if \<not> usable input unpacked_weight_sizes True then Inl LinearNotUsable
          else
            let v_output =
                  new_vTensor [sizes v_input ! BatchMatrices_batch,
                               sizes v_input ! BatchMatrices_height,
                               unpacked_weight_sizes ! BatchMatrices_width]
                    (scalar_type input_arg)
            in bind_result (safe_downcast_int32
                   (int (div_up (sizes v_input ! BatchMatrices_width) 2))) (\<lambda>k.
               bind_result (baddbmm_global_size v_input unpacked_weight_sizes)
                 (\<lambda>global_size.
               let job =
                     (if bias_defined then
                        \<lparr>shader = VK_KERNEL_baddbmm,
                         global_work_group_size = global_size,
                         local_work_group_size = (8, 8, 1),
                         arguments = [v_output, v_input, packed_v_weight, packed_v_bias],
                         params_buffer =
                           Block_baddbmm (extents env v_output) k
                             (extents env packed_v_bias) (alpha, beta)\<rparr>
                      else
                        \<lparr>shader = VK_KERNEL_bmm,
                         global_work_group_size = global_size,
                         local_work_group_size = (8, 8, 1),
                         arguments = [v_output, v_input, packed_v_weight],
                         params_buffer = Block_bmm (extents env v_output) k\<rparr>);
                   context' = submit_compute_job job context;
                   output = v_output;
                   shape = map (\<lambda>i. sizes input_arg ! i) [0..<ndimension input_arg - 1]
                           @ [last (sizes output)]
               in bind_result (reshape output shape) (\<lambda>r. Inr (r, context')))))"

subsection \<open>Entry points\<close>

definition addmm ::
    "Environment \<Rightarrow> Tensor \<Rightarrow> Tensor \<Rightarrow> Tensor \<Rightarrow> real \<Rightarrow> real \<Rightarrow> Context \<Rightarrow>
     error + (Tensor \<times> Context)" where
  "addmm env bias input weight beta alpha context =
    bind_result (LinearPackedContext_new env weight (some_Tensor bias) False) (\<lambda>c.
      run_addmm_context env input alpha beta c False 0 0 context)"

definition mm :: "Environment \<Rightarrow> Tensor \<Rightarrow> Tensor \<Rightarrow> Context \<Rightarrow> error + (Tensor \<times> Context)" where
  "mm env mat1_arg mat2_arg context =
    bind_result (LinearPackedContext_new env mat2_arg nullopt False) (\<lambda>c.
      run_addmm_context env mat1_arg 1 1 c False 0 0 context)"

definition bmm :: "Environment \<Rightarrow> Tensor \<Rightarrow> Tensor \<Rightarrow> Context \<Rightarrow> error + (Tensor \<times> Context)" where
  "bmm env mat1_arg mat2_arg context =
    bind_result (LinearPackedContext_new env mat2_arg nullopt True) (\<lambda>c.
      run_baddbmm_context env mat1_arg 1 1 c context)"

definition baddbmm ::
    "Environment \<Rightarrow> Tensor \<Rightarrow> Tensor \<Rightarrow> Tensor \<Rightarrow> real \<Rightarrow> real \<Rightarrow> Context \<Rightarrow>
     error + (Tensor \<times> Context)" where
  "baddbmm env bias input weight beta alpha context =
    bind_result (LinearPackedContext_new env weight (some_Tensor bias) True) (\<lambda>c.
      run_baddbmm_context env input alpha beta c context)"

definition run_linear_context ::
    "Environment \<Rightarrow> Tensor \<Rightarrow> LinearPackedContext \<Rightarrow> Context \<Rightarrow> error + (Tensor \<times> Context)" where
  "run_linear_context env input linear_context context =
    run_addmm_context env input 1 1 linear_context False 0 0 context"

definition run_qlinear_context ::
    "Environment \<Rightarrow> Tensor \<Rightarrow> real \<Rightarrow> int \<Rightarrow> LinearPackedContext \<Rightarrow> Context \<Rightarrow>
     error + (Tensor \<times> Context)" where
  "run_qlinear_context env input_arg output_scale output_zero_point linear_context context =
    run_addmm_context env input_arg 1 1 linear_context True output_scale
      output_zero_point context"

subsection \<open>Contexts behind pointers\<close>

text \<open>
  The registered operators hand a prepacked context around as a
  \<^verbatim>\<open>c10::intrusive_ptr<LinearPackedContext>\<close>: \<^verbatim>\<open>create_linear_context\<close>
  allocates the object and returns the pointer, and \<^verbatim>\<open>run_linear_context\<close>
  passes the pointer it receives to \<^verbatim>\<open>run_addmm_context\<close> (as
  \<^verbatim>\<open>run_qlinear_context\<close> does, with \<open>quantized\<close> set), which reads the object
  through \<^verbatim>\<open>get_val\<close>: the packed weight, the packed bias, the weight sizes and
  the bias-defined flag. The definitions above are these functions on the value of the
  object; the definitions below are the same calls on a pointer into the state. A
  pointer to no object is outside the model: the theorems take
  \<open>linear_context < length (prepacked context)\<close>.
\<close>

definition create_linear_context_ptr ::
    "Environment \<Rightarrow> Tensor \<Rightarrow> optional_Tensor \<Rightarrow> Context \<Rightarrow> error + (nat \<times> Context)" where
  "create_linear_context_ptr env weight bias context =
    bind_result (create_linear_context env weight bias) (\<lambda>c.
      Inr (length (prepacked context),
           context\<lparr>prepacked := prepacked context @ [c]\<rparr>))"

definition run_addmm_context_ptr ::
    "Environment \<Rightarrow> Tensor \<Rightarrow> real \<Rightarrow> real \<Rightarrow> nat \<Rightarrow> bool \<Rightarrow> real \<Rightarrow> int \<Rightarrow>
     Context \<Rightarrow> error + (Tensor \<times> Context)" where
  "run_addmm_context_ptr env input_arg alpha beta linear_context quantized output_scale
      output_zero_point context =
    run_addmm_context env input_arg alpha beta (prepacked context ! linear_context)
      quantized output_scale output_zero_point context"

definition run_linear_context_ptr ::
    "Environment \<Rightarrow> Tensor \<Rightarrow> nat \<Rightarrow> Context \<Rightarrow> error + (Tensor \<times> Context)" where
  "run_linear_context_ptr env input linear_context context =
    run_addmm_context_ptr env input 1 1 linear_context False 0 0 context"

subsection \<open>Reading a packed image\<close>

text \<open>
  The place of the element at batch \<open>b\<close>, channel \<open>channel\<close>, plane position
  \<open>(y, x)\<close> in the contiguous buffer of an image of sizes
  \<open>(batch, 4, dst_kh_sz, dst_kw_sz)\<close>, which is how the staging buffer is read when
  it is copied into the image.
\<close>

definition image_offset :: "nat \<Rightarrow> nat \<Rightarrow> nat \<Rightarrow> nat \<Rightarrow> nat \<Rightarrow> nat \<Rightarrow> nat" where
  "image_offset dst_kh_sz dst_kw_sz b channel y x =
    ((b * 4 + channel) * dst_kh_sz + y) * dst_kw_sz + x"

text \<open>
  What an image of sizes \<open>(batch, 4, height, width)\<close> holds in channel \<open>channel\<close> at
  plane position \<open>(y, x)\<close> of batch \<open>b\<close>: nothing outside the image, and nothing when
  the image has not been written in full.
\<close>

definition image_at :: "Tensor \<Rightarrow> nat \<Rightarrow> nat \<Rightarrow> nat \<Rightarrow> nat \<Rightarrow> real option" where
  "image_at v b channel y x =
    (case sizes v of
       [kb, kc, kh, kw] \<Rightarrow>
         if kc = 4 \<and> b < kb \<and> channel < 4 \<and> y < kh \<and> x < kw \<and>
            length (elems v) = kb * 4 * kh * kw
         then Some (elems v ! image_offset kh kw b channel y x)
         else None
     | _ \<Rightarrow> None)"


subsection \<open>Concrete values for the examples\<close>

definition sample_env :: Environment where
  "sample_env =
    \<lparr>api_available = True, releaseWeightsWhenPrepacking = False,
     extents = (\<lambda>t. (last (sizes t), 1, 1))\<rparr>"

definition cpu_float_tensor :: "nat list \<Rightarrow> real list \<Rightarrow> Tensor" where
  "cpu_float_tensor shape xs =
    \<lparr>sizes = shape, elems = xs, device = CPU, scalar_type = kFloat,
     requires_grad = False, is_quantized = False, v_is_quantized = False,
     gpu_memory_layout = TENSOR_CHANNELS_PACKED, q_scale = 1, q_zero_point = 0\<rparr>"

definition sample_linear_context :: LinearPackedContext where
  "sample_linear_context =
    \<lparr>packed_Weight =
       (cpu_float_tensor [3, 2] [1, 1, 1, 1, 1, 1])
         \<lparr>device := Vulkan, gpu_memory_layout := TENSOR_HEIGHT_PACKED\<rparr>,
     packed_Bias = (new_vTensor [1] kFloat)\<lparr>elems := [0]\<rparr>,
     packed_WeightSizes = [3, 2],
     packed_BiasDefined = False,
     unpacked = Some (cpu_float_tensor [3, 2] [1, 1, 1, 1, 1, 1], nullopt)\<rparr>"

definition sample_batch_context :: LinearPackedContext where
  "sample_batch_context =
    \<lparr>packed_Weight = new_vTensor [5, 4, 2, 1] kFloat,
     packed_Bias = (new_vTensor [1] kFloat)\<lparr>elems := [0]\<rparr>,
     packed_WeightSizes = [5, 3, 2],
     packed_BiasDefined = False,
     unpacked = None\<rparr>"

definition empty_queue :: Context where
  "empty_queue = \<lparr>submitted = [], prepacked = []\<rparr>"

subsection \<open>What usable asks of an unbatched input besides rank and placement\<close>

text \<open>
  The dtype, the width against the height of the weight, and the gradient flag, as
  \<open>usable\<close> tests them on an input of any rank (the width is the last size).
\<close>

definition input_matches_weight :: "Tensor \<Rightarrow> nat list \<Rightarrow> bool" where
  "input_matches_weight input unpacked_weight_sizes \<longleftrightarrow>
    (kFloat = scalar_type input \<or>
     (v_is_quantized input \<and>
      (kQUInt8 = scalar_type input \<or> kQInt8 = scalar_type input))) \<and>
    last (sizes input) = unpacked_weight_sizes ! Parameter_height \<and>
    \<not> requires_grad input"

section \<open>Properties\<close>

lemmas layout_defs =
  Parameter_height_def Parameter_width_def BatchMatrices_batch_def
  BatchMatrices_height_def BatchMatrices_width_def

lemmas tensor_defs = ndimension_def is_cpu_def is_vulkan_def size_checked_def

lemma all_less_2: "(\<forall>d<2::nat. P d) \<longleftrightarrow> P 0 \<and> P (Suc 0)"
  by (auto simp: less_Suc_eq numeral_2_eq_2)

lemma all_less_3: "(\<forall>d<3::nat. P d) \<longleftrightarrow> P 0 \<and> P (Suc 0) \<and> P 2"
  by (auto simp: less_Suc_eq numeral_3_eq_3 numeral_2_eq_2)

subsection \<open>Bias shapes that the unbatched check accepts\<close>

text \<open>
  The bias test of the unbatched \<open>available\<close>, for a weight and a bias that pass
  every other test: a bias of shape \<open>(1, W)\<close> is accepted when \<open>W\<close> is the width
  of the weight; a bias of rank above 1 is accepted exactly when its size on axis 1
  equals the width of the weight; and a bias of rank 1 is accepted whatever its length
  is, because the width is compared only when the rank of the bias is above 1.
\<close>

lemma available_unbatched_bias_shape:
  assumes "api_available env"
    and "ndimension weight = 2"
    and "0 < sizes weight ! Parameter_height" and "0 < sizes weight ! Parameter_width"
    and "device weight = CPU \<or> device weight = Vulkan"
    and "scalar_type weight = kFloat \<or> scalar_type weight = kQInt8"
    and "\<not> requires_grad weight"
    and "device b = CPU \<or> device b = Vulkan"
    and "scalar_type b = kFloat"
    and "\<not> requires_grad b"
  shows "available env weight (some_Tensor (b\<lparr>sizes := [1, sizes weight ! Parameter_width]\<rparr>))
           False = Inr True \<and>
         available env weight (some_Tensor (b\<lparr>sizes := [W2]\<rparr>)) False = Inr True \<and>
         available env weight (some_Tensor (b\<lparr>sizes := h # w # rest\<rparr>)) False
           = Inr (w = sizes weight ! Parameter_width)"
  using assms
  by (auto simp: available_def Let_def layout_defs tensor_defs)

subsection \<open>What the weight of an available pair looks like\<close>

text \<open>
  Claim C5. Unless \<open>available\<close> returns false (it then returns true, or raises on a
  batched bias of rank 0), the weight has rank 2, or 3 in batch mode; every one of its
  sizes is positive; it is on the host or on the Vulkan device; its dtype is float, or
  in the unbatched mode the signed 8-bit quantized dtype; and it needs no gradient. So a
  weight that needs a gradient, has another rank or dtype, or has a size of zero makes
  \<open>available\<close> return false.
\<close>

theorem available_weight_conditions:
  assumes "available env weight bias use_batch \<noteq> Inr False"
  shows "ndimension weight = (if use_batch then 3 else 2) \<and>
         (\<forall>d < ndimension weight. 0 < sizes weight ! d) \<and>
         (device weight = CPU \<or> device weight = Vulkan) \<and>
         (scalar_type weight = kFloat \<or> (\<not> use_batch \<and> scalar_type weight = kQInt8)) \<and>
         \<not> requires_grad weight"
proof (cases use_batch)
  case True
  with assms have "3 = ndimension weight \<and>
            sizes weight ! 0 > 0 \<and>
            sizes weight ! 1 > 0 \<and>
            sizes weight ! 2 > 0 \<and>
            (is_cpu weight \<or> Vulkan = device weight) \<and>
            kFloat = scalar_type weight \<and> \<not> requires_grad weight"
    by (auto simp: available_def available_check_with_batch_def Let_def layout_defs
        split: if_splits)
  with True show ?thesis by (auto simp: all_less_3 is_cpu_def)
next
  case False
  with assms have "2 = ndimension weight \<and>
            sizes weight ! 0 > 0 \<and>
            sizes weight ! 1 > 0 \<and>
            (is_cpu weight \<or> Vulkan = device weight) \<and>
            (kFloat = scalar_type weight \<or> kQInt8 = scalar_type weight) \<and>
            \<not> requires_grad weight"
    by (auto simp: available_def Let_def layout_defs split: if_splits)
  with False show ?thesis by (auto simp: all_less_2 is_cpu_def)
qed

theorem available_weight_conditions_witness:
  "available sample_env (cpu_float_tensor [3, 2] [1, 1, 1, 1, 1, 1]) nullopt False = Inr True \<and>
   ndimension (cpu_float_tensor [3, 2] [1, 1, 1, 1, 1, 1]) = 2 \<and>
   0 < sizes (cpu_float_tensor [3, 2] [1, 1, 1, 1, 1, 1]) ! 0 \<and>
   0 < sizes (cpu_float_tensor [3, 2] [1, 1, 1, 1, 1, 1]) ! 1 \<and>
   \<not> requires_grad (cpu_float_tensor [3, 2] [1, 1, 1, 1, 1, 1])"
proof -
  let ?w = "cpu_float_tensor [3, 2] [1, 1, 1, 1, 1, 1]"
  have a: "available sample_env ?w nullopt False = Inr True"
    by (simp add: available_def Let_def layout_defs tensor_defs sample_env_def
        cpu_float_tensor_def)
  then have h: "available sample_env ?w nullopt False \<noteq> Inr False" by simp
  from available_weight_conditions[OF h] a show ?thesis
    by (simp add: all_less_2)
qed

subsection \<open>When an input is usable\<close>

text \<open>
  Claim C4. For the shape of a weight (rank 2, or rank 3 in batch mode), \<open>usable\<close>
  returns true if and only if the input has rank 2 (3 in batch mode), is on the Vulkan
  device, has dtype float (or, outside batch mode, an 8-bit quantized dtype on a
  quantized image), needs no gradient, has a width (its last size) equal to the height
  of the weight (the size before the last), and in batch mode has the batch size (the
  first size) of the weight.
\<close>

theorem usable_iff:
  assumes "length unpacked_weight_sizes = (if use_batch then 3 else 2)"
  shows "usable input unpacked_weight_sizes use_batch \<longleftrightarrow>
     ndimension input = (if use_batch then 3 else 2) \<and>
     device input = Vulkan \<and>
     (scalar_type input = kFloat \<or>
      (\<not> use_batch \<and> v_is_quantized input \<and>
       (scalar_type input = kQInt8 \<or> scalar_type input = kQUInt8))) \<and>
     \<not> requires_grad input \<and>
     last (sizes input) = unpacked_weight_sizes ! (length unpacked_weight_sizes - 2) \<and>
     (if use_batch then hd (sizes input) = hd unpacked_weight_sizes else True)"
proof -
  from assms have ne: "unpacked_weight_sizes \<noteq> []" by (auto split: if_splits)
  show ?thesis
    using assms hd_conv_nth[OF ne]
    by (cases "sizes input" rule: rev_cases)
       (auto simp: usable_def usable_check_with_batch_def Let_def layout_defs tensor_defs
          hd_conv_nth nth_append)
qed

theorem usable_iff_witness:
  "usable (vulkan (cpu_float_tensor [2, 3] [1, 1, 1, 1, 1, 1])) [3, 2] False \<and>
   \<not> usable (cpu_float_tensor [2, 3] [1, 1, 1, 1, 1, 1]) [3, 2] False \<and>
   \<not> usable (vulkan (cpu_float_tensor [2, 3] [1, 1, 1, 1, 1, 1])) [2, 2] False \<and>
   usable (vulkan (cpu_float_tensor [4, 2, 3] [])) [4, 3, 5] True"
proof -
  have l2: "length [3, 2::nat] = (if False then 3 else 2)"
    and l2': "length [2, 2::nat] = (if False then 3 else 2)"
    and l3: "length [4, 3, 5::nat] = (if True then 3 else 2)" by simp_all
  show ?thesis
    unfolding usable_iff[OF l2] usable_iff[OF l2'] usable_iff[OF l3]
    by (simp add: vulkan_def cpu_float_tensor_def ndimension_def)
qed

subsection \<open>Loops that write a buffer\<close>

lemma fold_product:
  "fold (\<lambda>x. fold (f x) ys) xs = fold (\<lambda>(x, y). f x y) (List.product xs ys)"
  by (induction xs) (simp_all add: fold_map comp_def)

lemma length_fold_update:
  "length (fold (\<lambda>k d. d[pos k := val k]) ks d) = length d"
  by (induction ks arbitrary: d) simp_all

lemma fold_update_nth:
  assumes "\<forall>k\<in>set ks. pos k = i \<longrightarrow> val k = v"
    and "i < length d"
    and "d ! i = v \<or> (\<exists>k\<in>set ks. pos k = i)"
  shows "fold (\<lambda>k d. d[pos k := val k]) ks d ! i = v"
  using assms
proof (induction ks arbitrary: d)
  case Nil
  then show ?case by simp
next
  case (Cons a ks)
  have "fold (\<lambda>k d. d[pos k := val k]) ks (d[pos a := val a]) ! i = v"
  proof (rule Cons.IH)
    show "\<forall>k\<in>set ks. pos k = i \<longrightarrow> val k = v" using Cons.prems(1) by simp
    show "i < length (d[pos a := val a])" using Cons.prems(2) by simp
    show "d[pos a := val a] ! i = v \<or> (\<exists>k\<in>set ks. pos k = i)"
    proof (cases "pos a = i")
      case True
      then show ?thesis using Cons.prems(1,2) by simp
    next
      case False
      then show ?thesis using Cons.prems(3) by auto
    qed
  qed
  then show ?case by simp
qed

lemma radix_inj:
  fixes a x n :: nat
  assumes "x < n" "x' < n" "a * n + x = a' * n + x'"
  shows "a = a' \<and> x = x'"
proof -
  have "(a * n + x) div n = (a' * n + x') div n" "(a * n + x) mod n = (a' * n + x') mod n"
    using assms(3) by simp_all
  then show ?thesis using assms(1,2) by simp
qed

lemma radix_bound:
  fixes a x n m :: nat
  assumes "a < m" "x < n"
  shows "a * n + x < m * n"
proof -
  have "a * n + x < a * n + n" using assms(2) by simp
  also have "\<dots> = (a + 1) * n" by simp
  also have "\<dots> \<le> m * n" using assms(1) by (intro mult_le_mono1) simp
  finally show ?thesis .
qed

lemma image_offset_inj:
  assumes "c < 4" "c' < 4" "y < dkh" "y' < dkh" "x < dkw" "x' < dkw"
    and "image_offset dkh dkw b c y x = image_offset dkh dkw b' c' y' x'"
  shows "b = b' \<and> c = c' \<and> y = y' \<and> x = x'"
proof -
  from radix_inj[OF assms(5,6)] assms(7)
  have 1: "(b * 4 + c) * dkh + y = (b' * 4 + c') * dkh + y'" and x: "x = x'"
    unfolding image_offset_def by blast+
  from radix_inj[OF assms(3,4) 1] have 2: "b * 4 + c = b' * 4 + c'" and y: "y = y'" by blast+
  from radix_inj[OF assms(1,2) 2] show ?thesis using x y by blast
qed

lemma image_offset_bound:
  assumes "b < kb" "c < 4" "y < dkh" "x < dkw"
  shows "image_offset dkh dkw b c y x < kb * 4 * dkh * dkw"
  unfolding image_offset_def
  by (intro radix_bound assms)

lemma tile_inj:
  fixes h w :: nat
  assumes "2 * (h mod 2) + w mod 2 = 2 * (h' mod 2) + w' mod 2"
    "h div 2 = h' div 2" "w div 2 = w' div 2"
  shows "h = h' \<and> w = w'"
proof -
  have "(h mod 2) * 2 + w mod 2 = (h' mod 2) * 2 + w' mod 2"
    using assms(1) by (simp add: mult.commute)
  from radix_inj[OF _ _ this] have m: "h mod 2 = h' mod 2" "w mod 2 = w' mod 2"
    by simp_all
  have "h = 2 * (h div 2) + h mod 2" "h' = 2 * (h' div 2) + h' mod 2"
    "w = 2 * (w div 2) + w mod 2" "w' = 2 * (w' div 2) + w' mod 2"
    by simp_all
  with m assms(2,3) show ?thesis by metis
qed

lemma source_offset_eq:
  "src_b * (dst_kw_sz * dst_kh_sz * 4) + (2 * (src_h mod 2) + src_w mod 2) * (dst_kw_sz * dst_kh_sz)
     + (src_h div 2 * dst_kw_sz + src_w div 2)
   = image_offset dst_kh_sz dst_kw_sz src_b (2 * (src_h mod 2) + src_w mod 2) (src_h div 2) (src_w div 2)"
  unfolding image_offset_def by (simp add: algebra_simps)


lemma nested_fold_update_nth:
  assumes "b \<in> set bs" "h \<in> set hs" "w \<in> set ws"
    and same: "\<And>b' h' w'. b' \<in> set bs \<Longrightarrow> h' \<in> set hs \<Longrightarrow> w' \<in> set ws \<Longrightarrow>
                 pos b' h' w' = pos b h w \<Longrightarrow> val b' h' w' = val b h w"
    and bound: "pos b h w < length d"
  shows "fold (\<lambda>b. fold (\<lambda>h. fold (\<lambda>w d. d[pos b h w := val b h w]) ws) hs) bs d ! pos b h w
         = val b h w"
proof -
  let ?ks = "List.product bs (List.product hs ws)"
  let ?pos = "\<lambda>(b, h, w). pos b h w"
  let ?val = "\<lambda>(b, h, w). val b h w"
  have flat: "fold (\<lambda>b. fold (\<lambda>h. fold (\<lambda>w d. d[pos b h w := val b h w]) ws) hs) bs
              = fold (\<lambda>k d. d[?pos k := ?val k]) ?ks"
    by (simp add: fold_product split_def)
  have "fold (\<lambda>k d. d[?pos k := ?val k]) ?ks d ! pos b h w = val b h w"
  proof (rule fold_update_nth)
    show "\<forall>k\<in>set ?ks. ?pos k = pos b h w \<longrightarrow> ?val k = val b h w"
      using same by auto
    show "pos b h w < length d" by (rule bound)
    have "(b, h, w) \<in> set ?ks" using assms(1-3) by simp
    then show "d ! pos b h w = val b h w \<or> (\<exists>k\<in>set ?ks. ?pos k = pos b h w)"
      by force
  qed
  then show ?thesis by (simp only: flat)
qed

lemma half_bound_rows: "h < (if kh = 1 then 2 else kh) \<Longrightarrow> h div 2 < div_up kh 2"
  unfolding div_up_def by (auto split: if_splits)

lemma half_bound_cols: "w < (if ub \<and> kw = 1 then 2 else kw) \<Longrightarrow> w div 2 < div_up kw 2"
  unfolding div_up_def by (auto split: if_splits)

lemma half_bound: "(h::nat) < kh \<Longrightarrow> h div 2 < div_up kh 2"
  unfolding div_up_def by auto

lemma tile_channel_bound: "2 * (h mod 2) + w mod 2 < (4::nat)"
  by presburger

lemma stage_pack_biases_at:
  assumes "b < kb" "h < kh" "w < kw"
  shows "stage_pack_biases use_batch src kb kh kw !
           image_offset (div_up kh 2) (div_up kw 2) b (2 * (h mod 2) + w mod 2) (h div 2) (w div 2)
         = src ! (b * (kw * kh) + h * kw + w)"
proof -
  let ?hn = "if kh = 1 then 2 else kh"
  let ?wn = "if use_batch \<and> kw = 1 then 2 else kw"
  let ?pos = "\<lambda>b h w. image_offset (div_up kh 2) (div_up kw 2) b (2 * (h mod 2) + w mod 2)
                 (h div 2) (w div 2)"
  let ?val = "\<lambda>b h w. src ! (b * (kw * kh) + (if kh = 1 then 0 else h * kw) +
                 (if use_batch \<and> kw = 1 then 0 else w))"
  have hr: "h < ?hn" and wr: "w < ?wn" using assms by auto
  have "fold (\<lambda>b. fold (\<lambda>h. fold (\<lambda>w d. d[?pos b h w := ?val b h w]) [0..<?wn]) [0..<?hn])
          [0..<kb] (replicate (kb * 4 * div_up kh 2 * div_up kw 2) 0) ! ?pos b h w = ?val b h w"
  proof (rule nested_fold_update_nth)
    show "b \<in> set [0..<kb]" "h \<in> set [0..<?hn]" "w \<in> set [0..<?wn]"
      using assms(1) hr wr by simp_all
    show "?pos b h w < length (replicate (kb * 4 * div_up kh 2 * div_up kw 2) (0::real))"
      using assms(1) half_bound_rows[OF hr] half_bound_cols[OF wr]
      by (simp add: image_offset_bound tile_channel_bound)
  next
    fix b' h' w'
    assume r: "b' \<in> set [0..<kb]" "h' \<in> set [0..<?hn]" "w' \<in> set [0..<?wn]"
      and e: "?pos b' h' w' = ?pos b h w"
    have hr': "h' < ?hn" and wr': "w' < ?wn" using r by simp_all
    from image_offset_inj[OF tile_channel_bound tile_channel_bound
        half_bound_rows[OF hr'] half_bound_rows[OF hr]
        half_bound_cols[OF wr'] half_bound_cols[OF wr] e]
    have "b' = b" "2 * (h' mod 2) + w' mod 2 = 2 * (h mod 2) + w mod 2"
      "h' div 2 = h div 2" "w' div 2 = w div 2" by blast+
    with tile_inj have "b' = b \<and> h' = h \<and> w' = w" by blast
    then show "?val b' h' w' = ?val b h w" by simp
  qed
  moreover have "?val b h w = src ! (b * (kw * kh) + h * kw + w)"
    using assms by auto
  ultimately show ?thesis
    unfolding stage_pack_biases_def Let_def source_offset_eq by simp
qed


lemma stage_pack_weights_at:
  assumes "b < kb" "h < kh" "w < kw"
  shows "stage_pack_weights src kb kh kw (div_up kh 2) (div_up kw 2) !
           image_offset (div_up kh 2) (div_up kw 2) b (2 * (h mod 2) + w mod 2) (h div 2) (w div 2)
         = src ! (b * (kw * kh) + h * kw + w)"
proof -
  let ?pos = "\<lambda>b h w. image_offset (div_up kh 2) (div_up kw 2) b (2 * (h mod 2) + w mod 2)
                 (h div 2) (w div 2)"
  let ?val = "\<lambda>b h w. src ! (b * (kw * kh) + h * kw + w)"
  have "fold (\<lambda>b. fold (\<lambda>h. fold (\<lambda>w d. d[?pos b h w := ?val b h w]) [0..<kw]) [0..<kh])
          [0..<kb] (replicate (kb * 4 * div_up kh 2 * div_up kw 2) 0) ! ?pos b h w = ?val b h w"
  proof (rule nested_fold_update_nth)
    show "b \<in> set [0..<kb]" "h \<in> set [0..<kh]" "w \<in> set [0..<kw]"
      using assms by simp_all
    show "?pos b h w < length (replicate (kb * 4 * div_up kh 2 * div_up kw 2) (0::real))"
      using assms(1) half_bound[OF assms(2)] half_bound[OF assms(3)]
      by (simp add: image_offset_bound tile_channel_bound)
  next
    fix b' h' w'
    assume r: "b' \<in> set [0..<kb]" "h' \<in> set [0..<kh]" "w' \<in> set [0..<kw]"
      and e: "?pos b' h' w' = ?pos b h w"
    have hr': "h' < kh" and wr': "w' < kw" using r by simp_all
    from image_offset_inj[OF tile_channel_bound tile_channel_bound
        half_bound[OF hr'] half_bound[OF assms(2)]
        half_bound[OF wr'] half_bound[OF assms(3)] e]
    have "b' = b" "2 * (h' mod 2) + w' mod 2 = 2 * (h mod 2) + w mod 2"
      "h' div 2 = h div 2" "w' div 2 = w div 2" by blast+
    with tile_inj have "b' = b \<and> h' = h \<and> w' = w" by blast
    then show "?val b' h' w' = ?val b h w" by simp
  qed
  then show ?thesis
    unfolding stage_pack_weights_def Let_def source_offset_eq by simp
qed

lemma length_fold3_update:
  "length (fold (\<lambda>b. fold (\<lambda>h. fold (\<lambda>w d. d[pos b h w := val b h w]) ws) hs) bs d) = length d"
proof -
  have "fold (\<lambda>b. fold (\<lambda>h. fold (\<lambda>w d. d[pos b h w := val b h w]) ws) hs) bs
        = fold (\<lambda>k d. d[(\<lambda>(b, h, w). pos b h w) k := (\<lambda>(b, h, w). val b h w) k])
            (List.product bs (List.product hs ws))"
    by (simp add: fold_product split_def)
  then show ?thesis by (simp only: length_fold_update)
qed

lemma length_stage_pack_biases:
  "length (stage_pack_biases use_batch src kb kh kw) = kb * 4 * div_up kh 2 * div_up kw 2"
  unfolding stage_pack_biases_def Let_def by (simp only: length_fold3_update length_replicate)

lemma length_stage_pack_weights:
  "length (stage_pack_weights src kb kh kw dkh dkw) = kb * 4 * dkh * dkw"
  unfolding stage_pack_weights_def Let_def by (simp only: length_fold3_update length_replicate)

subsection \<open>Where the staged copy puts an element\<close>

lemma image_at_staged:
  assumes "sizes v = [kb, 4, dkh, dkw]" and "length (elems v) = kb * 4 * dkh * dkw"
    and "b < kb" and "c < 4" and "y < dkh" and "x < dkw"
  shows "image_at v b c y x = Some (elems v ! image_offset dkh dkw b c y x)"
  using assms by (simp add: image_at_def)

lemma pack_weights_staged:
  assumes "use_batch \<or> (is_quantized weight \<and> (scalar_type weight = kQInt8 \<or> scalar_type weight = kQUInt8))"
    and "use_batch \<longrightarrow> length (sizes weight) = 3"
  shows "\<exists>v. pack_weights weight use_batch = Inr v \<and>
           sizes v = [if use_batch then sizes weight ! 0 else 1, 4,
                      div_up (sizes weight ! (if use_batch then 1 else 0)) 2,
                      div_up (sizes weight ! (if use_batch then 2 else 1)) 2] \<and>
           elems v = stage_pack_weights (elems weight)
                       (if use_batch then sizes weight ! 0 else 1)
                       (sizes weight ! (if use_batch then 1 else 0))
                       (sizes weight ! (if use_batch then 2 else 1))
                       (div_up (sizes weight ! (if use_batch then 1 else 0)) 2)
                       (div_up (sizes weight ! (if use_batch then 2 else 1)) 2)"
  using assms
  by (auto simp: pack_weights_def Let_def new_vTensor_def layout_defs)

lemma pack_biases_staged:
  assumes "\<not> is_vulkan bias"
  shows "\<exists>v. pack_biases weight (some_Tensor bias) True = Inr v \<and>
           sizes v = [if length (sizes bias) = 3 then sizes bias ! 0 else 1, 4,
                      div_up (if length (sizes bias) = 3 then sizes bias ! 1
                              else if length (sizes bias) = 2 then sizes bias ! 0 else 1) 2,
                      div_up (if length (sizes bias) = 3 then sizes bias ! 2
                              else if length (sizes bias) = 2 then sizes bias ! 1
                              else sizes bias ! 0) 2] \<and>
           elems v = stage_pack_biases True (elems bias)
                       (if length (sizes bias) = 3 then sizes bias ! 0 else 1)
                       (if length (sizes bias) = 3 then sizes bias ! 1
                        else if length (sizes bias) = 2 then sizes bias ! 0 else 1)
                       (if length (sizes bias) = 3 then sizes bias ! 2
                        else if length (sizes bias) = 2 then sizes bias ! 1
                        else sizes bias ! 0)"
  using assms
  by (auto simp: pack_biases_def Let_def new_vTensor_def layout_defs)


lemma source_bound3:
  fixes b h w kb kh kw :: nat
  assumes a: "b < kb" "h < kh" "w < kw"
  shows "b * (kh * kw) + h * kw + w < kb * (kh * kw)"
proof -
  have "h * kw + w < kh * kw" using a(2,3) by (rule radix_bound)
  with a(1) have "b * (kh * kw) + (h * kw + w) < kb * (kh * kw)" by (rule radix_bound)
  then show ?thesis by (simp add: add.assoc)
qed

text \<open>
  Claim C2. The image that \<open>pack_weights\<close> returns for a batch of float matrices or
  for a quantized 8-bit matrix, and the image that \<open>pack_biases\<close> returns in batch mode
  for a host float bias of rank 3, 2 or 1, holds in channel \<open>2*(h%2)+(w%2)\<close> at plane
  position \<open>(h/2, w/2)\<close> of batch \<open>b\<close> the source element at position \<open>(h, w)\<close>
  of matrix \<open>b\<close>, for every \<open>b\<close>, \<open>h\<close> and \<open>w\<close> within the source sizes, and
  the element read lies inside the contiguous source. A single matrix is batch 0, and a
  bias of rank 1 is one row. The copy of a weight is \<^verbatim>\<open>stage_pack_weights\<close>
  (modelled from the spec) as \<open>pack_weights\<close> calls it; the copy of a bias is the loop
  of \<open>pack_biases\<close>.
\<close>

theorem staged_copy_positions:
  "(scalar_type weight = kFloat \<and> sizes weight = [kb, kh, kw] \<and> b < kb \<and> h < kh \<and> w < kw \<longrightarrow>
      (\<exists>v. pack_weights weight True = Inr v \<and>
           image_at v b (2 * (h mod 2) + w mod 2) (h div 2) (w div 2)
             = Some (elems weight ! (b * (kh * kw) + h * kw + w)) \<and>
           b * (kh * kw) + h * kw + w < prod_list (sizes weight))) \<and>
   (is_quantized weight \<and> (scalar_type weight = kQInt8 \<or> scalar_type weight = kQUInt8) \<and>
    sizes weight = [kh, kw] \<and> h < kh \<and> w < kw \<longrightarrow>
      (\<exists>v. pack_weights weight False = Inr v \<and>
           image_at v 0 (2 * (h mod 2) + w mod 2) (h div 2) (w div 2)
             = Some (elems weight ! (h * kw + w)) \<and>
           h * kw + w < prod_list (sizes weight))) \<and>
   (\<not> is_vulkan bias \<and> scalar_type bias = kFloat \<and> sizes bias = [kb, kh, kw] \<and>
    b < kb \<and> h < kh \<and> w < kw \<longrightarrow>
      (\<exists>v. pack_biases weight (some_Tensor bias) True = Inr v \<and>
           image_at v b (2 * (h mod 2) + w mod 2) (h div 2) (w div 2)
             = Some (elems bias ! (b * (kh * kw) + h * kw + w)) \<and>
           b * (kh * kw) + h * kw + w < prod_list (sizes bias))) \<and>
   (\<not> is_vulkan bias \<and> scalar_type bias = kFloat \<and> sizes bias = [kh, kw] \<and>
    h < kh \<and> w < kw \<longrightarrow>
      (\<exists>v. pack_biases weight (some_Tensor bias) True = Inr v \<and>
           image_at v 0 (2 * (h mod 2) + w mod 2) (h div 2) (w div 2)
             = Some (elems bias ! (h * kw + w)) \<and>
           h * kw + w < prod_list (sizes bias))) \<and>
   (\<not> is_vulkan bias \<and> scalar_type bias = kFloat \<and> sizes bias = [kw] \<and> w < kw \<longrightarrow>
      (\<exists>v. pack_biases weight (some_Tensor bias) True = Inr v \<and>
           image_at v 0 (w mod 2) 0 (w div 2) = Some (elems bias ! w)))"
proof (intro conjI impI)
  assume a: "scalar_type weight = kFloat \<and> sizes weight = [kb, kh, kw] \<and> b < kb \<and> h < kh \<and> w < kw"
  then have b: "b < kb" "h < kh" "w < kw" and sz: "sizes weight = [kb, kh, kw]" by simp_all
  from pack_weights_staged[of True weight] sz obtain v where
    v: "pack_weights weight True = Inr v" "sizes v = [kb, 4, div_up kh 2, div_up kw 2]"
      "elems v = stage_pack_weights (elems weight) kb kh kw (div_up kh 2) (div_up kw 2)"
    by auto
  have "image_at v b (2 * (h mod 2) + w mod 2) (h div 2) (w div 2)
      = Some (elems v ! image_offset (div_up kh 2) (div_up kw 2) b (2 * (h mod 2) + w mod 2)
                (h div 2) (w div 2))"
    by (rule image_at_staged[OF v(2) _ b(1) tile_channel_bound half_bound[OF b(2)]
          half_bound[OF b(3)]]) (simp add: v(3) length_stage_pack_weights)
  also have "\<dots> = Some (elems weight ! (b * (kh * kw) + h * kw + w))"
    unfolding v(3) stage_pack_weights_at[OF b] by (simp add: mult.commute)
  finally show "\<exists>v. pack_weights weight True = Inr v \<and>
           image_at v b (2 * (h mod 2) + w mod 2) (h div 2) (w div 2)
             = Some (elems weight ! (b * (kh * kw) + h * kw + w)) \<and>
           b * (kh * kw) + h * kw + w < prod_list (sizes weight)"
    using v(1) source_bound3[OF b] by (simp add: sz)
next
  assume a: "is_quantized weight \<and> (scalar_type weight = kQInt8 \<or> scalar_type weight = kQUInt8) \<and>
    sizes weight = [kh, kw] \<and> h < kh \<and> w < kw"
  then have b: "(0::nat) < 1" "h < kh" "w < kw" and sz: "sizes weight = [kh, kw]" by simp_all
  from pack_weights_staged[of False weight] a obtain v where
    v: "pack_weights weight False = Inr v" "sizes v = [1, 4, div_up kh 2, div_up kw 2]"
      "elems v = stage_pack_weights (elems weight) 1 kh kw (div_up kh 2) (div_up kw 2)"
    by auto
  have "image_at v 0 (2 * (h mod 2) + w mod 2) (h div 2) (w div 2)
      = Some (elems v ! image_offset (div_up kh 2) (div_up kw 2) 0 (2 * (h mod 2) + w mod 2)
                (h div 2) (w div 2))"
    by (rule image_at_staged[OF v(2) _ b(1) tile_channel_bound half_bound[OF b(2)]
          half_bound[OF b(3)]]) (simp add: v(3) length_stage_pack_weights)
  also have "\<dots> = Some (elems weight ! (h * kw + w))"
    unfolding v(3) stage_pack_weights_at[OF b] by simp
  finally show "\<exists>v. pack_weights weight False = Inr v \<and>
           image_at v 0 (2 * (h mod 2) + w mod 2) (h div 2) (w div 2)
             = Some (elems weight ! (h * kw + w)) \<and>
           h * kw + w < prod_list (sizes weight)"
    using v(1) radix_bound[OF b(2,3)] by (simp add: sz)
next
  assume a: "\<not> is_vulkan bias \<and> scalar_type bias = kFloat \<and> sizes bias = [kb, kh, kw] \<and>
    b < kb \<and> h < kh \<and> w < kw"
  then have b: "b < kb" "h < kh" "w < kw" and sz: "sizes bias = [kb, kh, kw]" by simp_all
  from pack_biases_staged[of bias weight] a obtain v where
    v: "pack_biases weight (some_Tensor bias) True = Inr v"
      "sizes v = [kb, 4, div_up kh 2, div_up kw 2]"
      "elems v = stage_pack_biases True (elems bias) kb kh kw"
    by auto
  have "image_at v b (2 * (h mod 2) + w mod 2) (h div 2) (w div 2)
      = Some (elems v ! image_offset (div_up kh 2) (div_up kw 2) b (2 * (h mod 2) + w mod 2)
                (h div 2) (w div 2))"
    by (rule image_at_staged[OF v(2) _ b(1) tile_channel_bound half_bound[OF b(2)]
          half_bound[OF b(3)]]) (simp add: v(3) length_stage_pack_biases)
  also have "\<dots> = Some (elems bias ! (b * (kh * kw) + h * kw + w))"
    unfolding v(3) stage_pack_biases_at[OF b] by (simp add: mult.commute)
  finally show "\<exists>v. pack_biases weight (some_Tensor bias) True = Inr v \<and>
           image_at v b (2 * (h mod 2) + w mod 2) (h div 2) (w div 2)
             = Some (elems bias ! (b * (kh * kw) + h * kw + w)) \<and>
           b * (kh * kw) + h * kw + w < prod_list (sizes bias)"
    using v(1) source_bound3[OF b] by (simp add: sz)
next
  assume a: "\<not> is_vulkan bias \<and> scalar_type bias = kFloat \<and> sizes bias = [kh, kw] \<and>
    h < kh \<and> w < kw"
  then have b: "(0::nat) < 1" "h < kh" "w < kw" and sz: "sizes bias = [kh, kw]" by simp_all
  from pack_biases_staged[of bias weight] a obtain v where
    v: "pack_biases weight (some_Tensor bias) True = Inr v"
      "sizes v = [1, 4, div_up kh 2, div_up kw 2]"
      "elems v = stage_pack_biases True (elems bias) 1 kh kw"
    by auto
  have "image_at v 0 (2 * (h mod 2) + w mod 2) (h div 2) (w div 2)
      = Some (elems v ! image_offset (div_up kh 2) (div_up kw 2) 0 (2 * (h mod 2) + w mod 2)
                (h div 2) (w div 2))"
    by (rule image_at_staged[OF v(2) _ b(1) tile_channel_bound half_bound[OF b(2)]
          half_bound[OF b(3)]]) (simp add: v(3) length_stage_pack_biases)
  also have "\<dots> = Some (elems bias ! (h * kw + w))"
    unfolding v(3) stage_pack_biases_at[OF b] by simp
  finally show "\<exists>v. pack_biases weight (some_Tensor bias) True = Inr v \<and>
           image_at v 0 (2 * (h mod 2) + w mod 2) (h div 2) (w div 2)
             = Some (elems bias ! (h * kw + w)) \<and>
           h * kw + w < prod_list (sizes bias)"
    using v(1) radix_bound[OF b(2,3)] by (simp add: sz)
next
  assume a: "\<not> is_vulkan bias \<and> scalar_type bias = kFloat \<and> sizes bias = [kw] \<and> w < kw"
  then have b: "(0::nat) < 1" "(0::nat) < 1" "w < kw" and sz: "sizes bias = [kw]" by simp_all
  from pack_biases_staged[of bias weight] a obtain v where
    v: "pack_biases weight (some_Tensor bias) True = Inr v"
      "sizes v = [1, 4, div_up 1 2, div_up kw 2]"
      "elems v = stage_pack_biases True (elems bias) 1 1 kw"
    by auto
  have "image_at v 0 (2 * (0 mod 2) + w mod 2) (0 div 2) (w div 2)
      = Some (elems v ! image_offset (div_up 1 2) (div_up kw 2) 0 (2 * (0 mod 2) + w mod 2)
                (0 div 2) (w div 2))"
    by (rule image_at_staged[OF v(2) _ b(1) tile_channel_bound half_bound[OF b(2)]
          half_bound[OF b(3)]]) (simp add: v(3) length_stage_pack_biases)
  also have "\<dots> = Some (elems bias ! w)"
    unfolding v(3) stage_pack_biases_at[OF b] by simp
  finally show "\<exists>v. pack_biases weight (some_Tensor bias) True = Inr v \<and>
           image_at v 0 (w mod 2) 0 (w div 2) = Some (elems bias ! w)"
    using v(1) by simp
qed


theorem staged_copy_positions_witness:
  "map_sum id (\<lambda>v. image_at v 0 2 0 1)
     (pack_weights (cpu_float_tensor [1, 2, 3] [1, 2, 3, 4, 5, 6]) True) = Inr (Some 6) \<and>
   map_sum id (\<lambda>v. image_at v 0 2 0 0)
     (pack_weights ((cpu_float_tensor [2, 3] [1, 2, 3, 4, 5, 6])
                      \<lparr>scalar_type := kQInt8, is_quantized := True\<rparr>) False) = Inr (Some 4) \<and>
   map_sum id (\<lambda>v. image_at v 0 1 0 0)
     (pack_biases (cpu_float_tensor [1, 2, 3] [1, 2, 3, 4, 5, 6])
        (some_Tensor (cpu_float_tensor [1, 2, 3] [1, 2, 3, 4, 5, 6])) True) = Inr (Some 2) \<and>
   map_sum id (\<lambda>v. image_at v 0 3 0 0)
     (pack_biases (cpu_float_tensor [1, 2, 3] [1, 2, 3, 4, 5, 6])
        (some_Tensor (cpu_float_tensor [2, 3] [1, 2, 3, 4, 5, 6])) True) = Inr (Some 5) \<and>
   map_sum id (\<lambda>v. image_at v 0 0 0 1)
     (pack_biases (cpu_float_tensor [1, 2, 3] [1, 2, 3, 4, 5, 6])
        (some_Tensor (cpu_float_tensor [3] [7, 8, 9])) True) = Inr (Some 9)"
proof -
  let ?w = "cpu_float_tensor [1, 2, 3] [1, 2, 3, 4, 5, 6]"
  let ?q = "(cpu_float_tensor [2, 3] [1, 2, 3, 4, 5, 6])
              \<lparr>scalar_type := kQInt8, is_quantized := True\<rparr>"
  let ?b2 = "cpu_float_tensor [2, 3] [1, 2, 3, 4, 5, 6]"
  let ?b1 = "cpu_float_tensor [3] [7, 8, 9]"
  have s: "scalar_type ?w = kFloat \<and> sizes ?w = [1, 2, 3] \<and> (0::nat) < 1 \<and> (1::nat) < 2 \<and> (2::nat) < 3"
    "is_quantized ?q \<and> (scalar_type ?q = kQInt8 \<or> scalar_type ?q = kQUInt8) \<and>
     sizes ?q = [2, 3] \<and> (1::nat) < 2 \<and> (0::nat) < 3"
    "\<not> is_vulkan ?w \<and> scalar_type ?w = kFloat \<and> sizes ?w = [1, 2, 3] \<and>
     (0::nat) < 1 \<and> (0::nat) < 2 \<and> (1::nat) < 3"
    "\<not> is_vulkan ?b2 \<and> scalar_type ?b2 = kFloat \<and> sizes ?b2 = [2, 3] \<and>
     (1::nat) < 2 \<and> (1::nat) < 3"
    "\<not> is_vulkan ?b1 \<and> scalar_type ?b1 = kFloat \<and> sizes ?b1 = [3] \<and> (2::nat) < 3"
    by (simp_all add: cpu_float_tensor_def is_vulkan_def)
  from staged_copy_positions[where weight = ?w and kb = 1 and kh = 2 and kw = 3
      and b = 0 and h = 1 and w = 2] s(1)
  have 1: "\<exists>v. pack_weights ?w True = Inr v \<and> image_at v 0 2 0 1 = Some 6"
    by (simp add: cpu_float_tensor_def)
  from staged_copy_positions[where weight = ?q and kh = 2 and kw = 3 and h = 1 and w = 0] s(2)
  have 2: "\<exists>v. pack_weights ?q False = Inr v \<and> image_at v 0 2 0 0 = Some 4"
    by (simp add: cpu_float_tensor_def)
  from staged_copy_positions[where weight = ?w and bias = ?w and kb = 1 and kh = 2 and kw = 3
      and b = 0 and h = 0 and w = 1] s(3)
  have 3: "\<exists>v. pack_biases ?w (some_Tensor ?w) True = Inr v \<and> image_at v 0 1 0 0 = Some 2"
    by (simp add: cpu_float_tensor_def)
  from staged_copy_positions[where weight = ?w and bias = ?b2 and kh = 2 and kw = 3
      and h = 1 and w = 1] s(4)
  have 4: "\<exists>v. pack_biases ?w (some_Tensor ?b2) True = Inr v \<and> image_at v 0 3 0 0 = Some 5"
    by (simp add: cpu_float_tensor_def)
  from staged_copy_positions[where weight = ?w and bias = ?b1 and kw = 3 and w = 2] s(5)
  have 5: "\<exists>v. pack_biases ?w (some_Tensor ?b1) True = Inr v \<and> image_at v 0 0 0 1 = Some 9"
    by (simp add: cpu_float_tensor_def)
  from 1 2 3 4 5 show ?thesis by auto
qed

subsection \<open>The sizes of a packed destination\<close>

lemma ceiling_nat_div: "\<lceil>real n / real d\<rceil> = - (- int n div int d)"
proof -
  have "\<lceil>real n / real d\<rceil> = \<lceil>of_int (int n) / of_int (int d) :: real\<rceil>" by simp
  also have "\<dots> = - (- int n div int d)" by (rule ceiling_divide_eq_div)
  finally show ?thesis .
qed

lemma div_up_2: "div_up n 2 = nat \<lceil>real n / 2\<rceil>"
  using ceiling_nat_div[of n 2] unfolding div_up_def by simp

lemma div_up_4: "div_up n 4 = nat \<lceil>real n / 4\<rceil>"
  using ceiling_nat_div[of n 4] unfolding div_up_def by simp

text \<open>
  Claim C3. A weight packed through the staged copy (a float batch of matrices, or a
  quantized 8-bit matrix) and a host float bias packed in batch mode get a destination
  of sizes \<open>(batch, 4, ceil(rows/2), ceil(cols/2))\<close>, where \<open>(rows, cols)\<close> are the
  sizes of the source matrix and the batch is 1 for a single matrix; a bias of rank 1 is
  one row, and \<open>ceil(1/2) = 1\<close>. This holds for all sizes, so for
  \<open>rows, cols \<ge> 1\<close>. (The dtypes are those the staged copy reads; \<open>available\<close>
  admits no other.)
\<close>

theorem packed_destination_sizes:
  "(scalar_type weight = kFloat \<and> sizes weight = [batch, rows, cols] \<longrightarrow>
      (\<exists>v. pack_weights weight True = Inr v \<and>
           sizes v = [batch, 4, nat \<lceil>real rows / 2\<rceil>, nat \<lceil>real cols / 2\<rceil>])) \<and>
   (is_quantized weight \<and> (scalar_type weight = kQInt8 \<or> scalar_type weight = kQUInt8) \<and>
    sizes weight = [rows, cols] \<longrightarrow>
      (\<exists>v. pack_weights weight False = Inr v \<and>
           sizes v = [1, 4, nat \<lceil>real rows / 2\<rceil>, nat \<lceil>real cols / 2\<rceil>])) \<and>
   (\<not> is_vulkan bias \<and> scalar_type bias = kFloat \<and> sizes bias = [batch, rows, cols] \<longrightarrow>
      (\<exists>v. pack_biases weight (some_Tensor bias) True = Inr v \<and>
           sizes v = [batch, 4, nat \<lceil>real rows / 2\<rceil>, nat \<lceil>real cols / 2\<rceil>])) \<and>
   (\<not> is_vulkan bias \<and> scalar_type bias = kFloat \<and> sizes bias = [rows, cols] \<longrightarrow>
      (\<exists>v. pack_biases weight (some_Tensor bias) True = Inr v \<and>
           sizes v = [1, 4, nat \<lceil>real rows / 2\<rceil>, nat \<lceil>real cols / 2\<rceil>])) \<and>
   (\<not> is_vulkan bias \<and> scalar_type bias = kFloat \<and> sizes bias = [cols] \<longrightarrow>
      (\<exists>v. pack_biases weight (some_Tensor bias) True = Inr v \<and>
           sizes v = [1, 4, 1, nat \<lceil>real cols / 2\<rceil>]))"
proof -
  have one: "div_up (Suc 0) 2 = 1" by (simp add: div_up_def)
  show ?thesis
    by (simp add: pack_weights_def pack_biases_def Let_def new_vTensor_def layout_defs
        div_up_2[symmetric] one)
qed

theorem packed_destination_sizes_witness:
  "map_sum id sizes (pack_weights (cpu_float_tensor [2, 3, 5] []) True) = Inr [2, 4, 2, 3] \<and>
   map_sum id sizes
     (pack_weights ((cpu_float_tensor [3, 5] [])\<lparr>scalar_type := kQInt8, is_quantized := True\<rparr>)
        False) = Inr [1, 4, 2, 3] \<and>
   map_sum id sizes (pack_biases (cpu_float_tensor [2, 3, 5] [])
      (some_Tensor (cpu_float_tensor [2, 3, 5] [])) True) = Inr [2, 4, 2, 3] \<and>
   map_sum id sizes (pack_biases (cpu_float_tensor [2, 3, 5] [])
      (some_Tensor (cpu_float_tensor [3, 5] [])) True) = Inr [1, 4, 2, 3] \<and>
   map_sum id sizes (pack_biases (cpu_float_tensor [2, 3, 5] [])
      (some_Tensor (cpu_float_tensor [5] [])) True) = Inr [1, 4, 1, 3]"
proof -
  let ?q = "(cpu_float_tensor [3, 5] [])\<lparr>scalar_type := kQInt8, is_quantized := True\<rparr>"
  have c: "nat \<lceil>real 3 / 2\<rceil> = 2" "nat \<lceil>real 5 / 2\<rceil> = 3"
    by (simp_all only: div_up_2[symmetric]) (simp_all add: div_up_def)
  have s: "scalar_type (cpu_float_tensor [2, 3, 5] []) = kFloat \<and>
             sizes (cpu_float_tensor [2, 3, 5] []) = [2, 3, 5]"
    "\<not> is_vulkan (cpu_float_tensor [2, 3, 5] []) \<and>
     scalar_type (cpu_float_tensor [2, 3, 5] []) = kFloat \<and>
     sizes (cpu_float_tensor [2, 3, 5] []) = [2, 3, 5]"
    "\<not> is_vulkan (cpu_float_tensor [3, 5] []) \<and>
     scalar_type (cpu_float_tensor [3, 5] []) = kFloat \<and>
     sizes (cpu_float_tensor [3, 5] []) = [3, 5]"
    "\<not> is_vulkan (cpu_float_tensor [5] []) \<and>
     scalar_type (cpu_float_tensor [5] []) = kFloat \<and>
     sizes (cpu_float_tensor [5] []) = [5]"
    "is_quantized ?q \<and> (scalar_type ?q = kQInt8 \<or> scalar_type ?q = kQUInt8) \<and>
     sizes ?q = [3, 5]"
    by (simp_all add: cpu_float_tensor_def is_vulkan_def)
  from packed_destination_sizes[where weight = "cpu_float_tensor [2, 3, 5] []"
      and batch = 2 and rows = 3 and cols = 5 and bias = "cpu_float_tensor [2, 3, 5] []"] s(1,2)
  have 1: "\<exists>v. pack_weights (cpu_float_tensor [2, 3, 5] []) True = Inr v \<and> sizes v = [2, 4, 2, 3]"
    and 2: "\<exists>v. pack_biases (cpu_float_tensor [2, 3, 5] [])
              (some_Tensor (cpu_float_tensor [2, 3, 5] [])) True = Inr v \<and> sizes v = [2, 4, 2, 3]"
    unfolding c by blast+
  from packed_destination_sizes[where weight = ?q
      and rows = 3 and cols = 5 and bias = "cpu_float_tensor [3, 5] []"] s(3,5)
  have 3: "\<exists>v. pack_weights ?q False = Inr v \<and> sizes v = [1, 4, 2, 3]"
    and q4: "\<exists>v. pack_biases ?q
              (some_Tensor (cpu_float_tensor [3, 5] [])) True = Inr v \<and> sizes v = [1, 4, 2, 3]"
    unfolding c by blast+
  from packed_destination_sizes[where weight = "cpu_float_tensor [2, 3, 5] []"
      and rows = 3 and cols = 5 and bias = "cpu_float_tensor [3, 5] []"] s(3)
  have 4: "\<exists>v. pack_biases (cpu_float_tensor [2, 3, 5] [])
              (some_Tensor (cpu_float_tensor [3, 5] [])) True = Inr v \<and> sizes v = [1, 4, 2, 3]"
    unfolding c by blast
  from packed_destination_sizes[where weight = "cpu_float_tensor [2, 3, 5] []"
      and cols = 5 and bias = "cpu_float_tensor [5] []"] s(4)
  have 5: "\<exists>v. pack_biases (cpu_float_tensor [2, 3, 5] [])
              (some_Tensor (cpu_float_tensor [5] [])) True = Inr v \<and> sizes v = [1, 4, 1, 3]"
    unfolding c by blast
  from 1 2 3 4 5 show ?thesis by auto
qed

subsection \<open>Building the prepacked context\<close>

lemma bind_result_Inr:
  "bind_result r f = Inr y \<longleftrightarrow> (\<exists>v. r = Inr v \<and> f v = Inr y)"
  by (cases r) (simp_all add: bind_result_def)

lemma bind_result_Inl:
  "bind_result r f = Inl e \<longleftrightarrow> r = Inl e \<or> (\<exists>v. r = Inr v \<and> f v = Inl e)"
  by (cases r) (simp_all add: bind_result_def)

lemma bind_result_simps:
  "bind_result (Inl e) f = Inl e" "bind_result (Inr v) f = f v"
  by (simp_all add: bind_result_def)

lemma sample_pack_weights:
  "pack_weights (cpu_float_tensor [3, 2] [1, 1, 1, 1, 1, 1]) False
     = Inr ((cpu_float_tensor [3, 2] [1, 1, 1, 1, 1, 1])
              \<lparr>device := Vulkan, gpu_memory_layout := TENSOR_HEIGHT_PACKED\<rparr>)"
  by (simp add: pack_weights_def pack_weights_using_height_packing_def
      convert_image_channels_packed_to_height_packed_def vulkan_def
      cpu_float_tensor_def tensor_defs)

lemma sample_pack_biases:
  "pack_biases (cpu_float_tensor [3, 2] [1, 1, 1, 1, 1, 1]) nullopt False
     = Inr ((new_vTensor [1] kFloat)\<lparr>elems := [0]\<rparr>)"
  by (simp add: pack_biases_def cpu_float_tensor_def)

lemma sample_available:
  "available (sample_env\<lparr>releaseWeightsWhenPrepacking := r\<rparr>)
     (cpu_float_tensor [3, 2] [1, 1, 1, 1, 1, 1]) nullopt False = Inr True"
  by (simp add: available_def Let_def sample_env_def cpu_float_tensor_def layout_defs
      tensor_defs)

lemma sample_context:
  "LinearPackedContext_new (sample_env\<lparr>releaseWeightsWhenPrepacking := r\<rparr>)
     (cpu_float_tensor [3, 2] [1, 1, 1, 1, 1, 1]) nullopt False
     = Inr \<lparr>packed_Weight =
              (cpu_float_tensor [3, 2] [1, 1, 1, 1, 1, 1])
                \<lparr>device := Vulkan, gpu_memory_layout := TENSOR_HEIGHT_PACKED\<rparr>,
            packed_Bias = (new_vTensor [1] kFloat)\<lparr>elems := [0]\<rparr>,
            packed_WeightSizes = [3, 2],
            packed_BiasDefined = False,
            unpacked = (if r then None
                        else Some (cpu_float_tensor [3, 2] [1, 1, 1, 1, 1, 1], nullopt))\<rparr>"
  unfolding LinearPackedContext_new_def sample_pack_weights sample_pack_biases
    sample_available bind_result_simps
  by (simp add: sample_env_def bias_is_defined_def cpu_float_tensor_def)








subsection \<open>Running the unbatched kernels\<close>

lemma prod_list_flatten:
  "xs \<noteq> [] \<Longrightarrow> prod_list [prod_list (butlast xs), last xs] = prod_list xs"
proof -
  assume "xs \<noteq> []"
  then have "prod_list xs = prod_list (butlast xs @ [last xs])" by simp
  then show ?thesis by simp
qed

lemma map_nth_butlast: "map (\<lambda>i. xs ! i) [0..<length xs - 1] = butlast xs"
  by (rule nth_equalityI) (simp_all add: nth_butlast)

lemma flatten_rank2:
  "length (sizes (t::Tensor)) = 2 \<Longrightarrow>
     t\<lparr>sizes := [prod_list (butlast (sizes t)), last (sizes t)]\<rparr> = t"
proof -
  assume "length (sizes t) = 2"
  then obtain a b where "sizes t = [a, b]"
    by (cases "sizes t"; cases "tl (sizes t)") auto
  then show ?thesis by simp
qed

lemma input_arg_2d_result:
  "(if ndimension t = 2 then Inr t else reshape_to_2d t)
     = (if 2 \<le> ndimension t
        then Inr (t\<lparr>sizes := [prod_list (butlast (sizes t)), last (sizes t)]\<rparr>)
        else Inl InputDimBelow2)"
proof (cases "ndimension t = 2")
  case True
  then show ?thesis by (simp add: ndimension_def flatten_rank2)
next
  case False
  show ?thesis
  proof (cases "2 \<le> ndimension t")
    case True
    then have "sizes t \<noteq> []" by (auto simp: ndimension_def)
    with True False show ?thesis
      by (simp add: reshape_to_2d_def reshape_def Let_def prod_list_flatten del: prod_list.Cons)
  next
    case False
    then show ?thesis by (simp add: reshape_to_2d_def)
  qed
qed

lemma pack_inputs_using_height_packing_Inr:
  assumes "pack_inputs_using_height_packing t = Inr v"
  shows "ndimension t = 2 \<and> \<not> is_quantized t \<and>
         v = t\<lparr>device := Vulkan, gpu_memory_layout := TENSOR_WIDTH_PACKED\<rparr>"
  using assms
  by (cases t)
     (auto simp: pack_inputs_using_height_packing_def Let_def tensor_defs vulkan_def
        convert_image_channels_packed_to_width_packed_def split: if_splits)

lemma pack_inputs_using_height_packing_vulkan:
  "is_vulkan t \<Longrightarrow> pack_inputs_using_height_packing t \<noteq> Inl InputNotOnVulkan"
  by (auto simp: pack_inputs_using_height_packing_def Let_def tensor_defs split: if_splits)

lemma addmm_shader_and_params_Inr:
  assumes "addmm_shader_and_params env bias_defined quantized input_arg v_output v_input
             w b alpha beta os oz = Inr (k, p)"
  shows "k = (if quantized
              then if bias_defined
                   then if scalar_type input_arg = kQInt8
                        then VK_KERNEL_quantized_addmm_qint8
                        else VK_KERNEL_quantized_addmm_quint8
                   else if scalar_type input_arg = kQInt8
                        then VK_KERNEL_quantized_mm_qint8
                        else VK_KERNEL_quantized_mm_quint8
              else if bias_defined then VK_KERNEL_addmm else VK_KERNEL_mm)"
  using assms
  by (auto simp: addmm_shader_and_params_def bind_result_Inr split: if_splits prod.splits)

lemma safe_downcast_uint32_Inr: "safe_downcast_uint32 v = Inr u \<Longrightarrow> u = v"
  by (simp add: safe_downcast_uint32_def split: if_splits)

lemma addmm_global_size_Inr:
  assumes "addmm_global_size v_output = Inr g"
  shows "g = (div_up (sizes v_output ! 1) 4, div_up (sizes v_output ! 0) 4, 1)"
  using assms
  by (auto simp: addmm_global_size_def bind_result_Inr layout_defs
      dest!: safe_downcast_uint32_Inr)

lemma vulkan_if_needed:
  "(if is_vulkan t then t else vulkan t) = t\<lparr>device := Vulkan\<rparr>"
  by (cases t) (simp add: is_vulkan_def vulkan_def)

lemma run_addmm_context_Inr_iff:
  "run_addmm_context env input_arg alpha beta c quantized os oz s = Inr (y, s') \<longleftrightarrow>
   (\<exists>v_input v_output k p g.
     2 \<le> ndimension input_arg \<and>
     pack_inputs_using_height_packing
       (input_arg\<lparr>sizes := [prod_list (butlast (sizes input_arg)), last (sizes input_arg)],
                  device := Vulkan\<rparr>) = Inr v_input \<and>
     usable (input_arg\<lparr>sizes := [prod_list (butlast (sizes input_arg)), last (sizes input_arg)],
                         device := Vulkan\<rparr>) (packed_WeightSizes c) False \<and>
     (quantized \<longrightarrow> v_is_quantized (packed_Weight c) \<and> v_is_quantized v_input) \<and>
     (\<not> quantized \<longrightarrow> gpu_memory_layout (packed_Weight c) = TENSOR_HEIGHT_PACKED) \<and>
     v_output =
       (if quantized
        then (new_vTensor [prod_list (butlast (sizes input_arg)), packed_WeightSizes c ! 1]
                (scalar_type input_arg))
               \<lparr>v_is_quantized := True, q_scale := os, q_zero_point := oz\<rparr>
        else new_vTensor [prod_list (butlast (sizes input_arg)), packed_WeightSizes c ! 1]
               (scalar_type input_arg)) \<and>
     addmm_shader_and_params env (packed_BiasDefined c) quantized input_arg v_output v_input
       (packed_Weight c) (packed_Bias c) alpha beta os oz = Inr (k, p) \<and>
     addmm_global_size v_output = Inr g \<and>
     s' = submit_compute_job
            \<lparr>shader = k, global_work_group_size = g, local_work_group_size = (8, 8, 1),
             arguments =
               (if packed_BiasDefined c
                then [v_output, v_input, packed_Weight c, packed_Bias c]
                else [v_output, v_input, packed_Weight c]),
             params_buffer = p\<rparr> s \<and>
     y = v_output\<lparr>sizes := butlast (sizes input_arg) @ [packed_WeightSizes c ! 1]\<rparr>)"
  (is "?L \<longleftrightarrow> ?R")
proof -
  have shape: "map (\<lambda>i. sizes input_arg ! i) [0..<length (sizes input_arg) - Suc 0]
                 = butlast (sizes input_arg)"
    using map_nth_butlast[of "sizes input_arg"] by simp
  have fwd: "?R" if run: "?L"
  proof -
    from run have r2: "2 \<le> ndimension input_arg"
      unfolding run_addmm_context_def input_arg_2d_result
      by (auto simp: bind_result_simps split: if_splits)
    show ?thesis
    proof (cases "ndimension input_arg = 2")
      case True
      then obtain a b where ab: "sizes input_arg = [a, b]"
        unfolding ndimension_def by (cases "sizes input_arg"; cases "tl (sizes input_arg)") auto
      from True have len: "length (sizes input_arg) = 2" by (simp add: ndimension_def)
      show ?thesis
        using run True
        unfolding run_addmm_context_def Let_def flatten_rank2[OF len] vulkan_if_needed
        apply (simp only: if_True bind_result_simps)
        apply (auto simp: bind_result_Inr layout_defs ab new_vTensor_def ndimension_def
            split: if_splits prod.splits)
        done
    next
      case False
      show ?thesis
        using run r2 False
        unfolding run_addmm_context_def input_arg_2d_result Let_def vulkan_if_needed
        apply (simp only: if_True if_False bind_result_simps)
        apply (auto simp: bind_result_Inr layout_defs shape reshape_def
            new_vTensor_def ndimension_def
            split: if_splits prod.splits)
        done
    qed
  qed
  have bwd: "?L" if "?R"
  proof -
    from that obtain v_input v_output k p g where
      r2: "2 \<le> ndimension input_arg"
      and pi: "pack_inputs_using_height_packing
         (input_arg\<lparr>sizes := [prod_list (butlast (sizes input_arg)), last (sizes input_arg)],
                  device := Vulkan\<rparr>) = Inr v_input"
      and us: "usable (input_arg\<lparr>sizes := [prod_list (butlast (sizes input_arg)), last (sizes input_arg)],
                         device := Vulkan\<rparr>) (packed_WeightSizes c) False"
      and q1: "quantized \<longrightarrow> v_is_quantized (packed_Weight c) \<and> v_is_quantized v_input"
      and q2: "\<not> quantized \<longrightarrow> gpu_memory_layout (packed_Weight c) = TENSOR_HEIGHT_PACKED"
      and vo: "v_output =
       (if quantized
        then (new_vTensor [prod_list (butlast (sizes input_arg)), packed_WeightSizes c ! 1]
                (scalar_type input_arg))
               \<lparr>v_is_quantized := True, q_scale := os, q_zero_point := oz\<rparr>
        else new_vTensor [prod_list (butlast (sizes input_arg)), packed_WeightSizes c ! 1]
               (scalar_type input_arg))"
      and sp: "addmm_shader_and_params env (packed_BiasDefined c) quantized input_arg v_output v_input
       (packed_Weight c) (packed_Bias c) alpha beta os oz = Inr (k, p)"
      and gs: "addmm_global_size v_output = Inr g"
      and s': "s' = submit_compute_job
            \<lparr>shader = k, global_work_group_size = g, local_work_group_size = (8, 8, 1),
             arguments =
               (if packed_BiasDefined c
                then [v_output, v_input, packed_Weight c, packed_Bias c]
                else [v_output, v_input, packed_Weight c]),
             params_buffer = p\<rparr> s"
      and y: "y = v_output\<lparr>sizes := butlast (sizes input_arg) @ [packed_WeightSizes c ! 1]\<rparr>"
      by blast
    have so: "sizes v_output = [prod_list (butlast (sizes input_arg)), packed_WeightSizes c ! 1]"
      unfolding vo by (simp add: new_vTensor_def)
    have y2: "ndimension input_arg = 2 \<Longrightarrow> y = v_output"
    proof -
      assume "ndimension input_arg = 2"
      then obtain a b where ab: "sizes input_arg = [a, b]"
        unfolding ndimension_def by (cases "sizes input_arg"; cases "tl (sizes input_arg)") auto
      show ?thesis unfolding y using so by (cases v_output) (simp add: ab)
    qed
    have rs: "reshape v_output (butlast (sizes input_arg) @ [packed_WeightSizes c ! 1]) = Inr y"
      unfolding y reshape_def so by simp
    show ?thesis
    proof (cases quantized)
      case True
      show ?thesis
        unfolding run_addmm_context_def input_arg_2d_result Let_def vulkan_if_needed
        using r2 pi us q1 q2 sp gs y2 rs True unfolding vo s' vo
        by (simp add: bind_result_simps layout_defs shape ndimension_def new_vTensor_def)
    next
      case False
      show ?thesis
        unfolding run_addmm_context_def input_arg_2d_result Let_def vulkan_if_needed
        using r2 pi us q1 q2 sp gs y2 rs False unfolding vo s' vo
        by (simp add: bind_result_simps layout_defs shape ndimension_def new_vTensor_def)
    qed
  qed
  from fwd bwd show ?thesis by blast
qed

subsection \<open>Running the batched kernels\<close>

lemma baddbmm_global_size_Inr:
  assumes "baddbmm_global_size v_input ws = Inr g"
  shows "g = (div_up (ws ! 2) 2, div_up (sizes v_input ! 1) 2, div_up (sizes v_input ! 0) 4)"
  using assms
  by (auto simp: baddbmm_global_size_def bind_result_Inr layout_defs
      dest!: safe_downcast_uint32_Inr)

lemma run_baddbmm_context_Inr:
  assumes "run_baddbmm_context env input_arg alpha beta c s = Inr (y, s')"
  shows "\<exists>k g.
     ndimension input_arg = 3 \<and>
     usable (input_arg\<lparr>device := Vulkan\<rparr>) (packed_WeightSizes c) True \<and>
     baddbmm_global_size (input_arg\<lparr>device := Vulkan\<rparr>) (packed_WeightSizes c) = Inr g \<and>
     y = new_vTensor [sizes input_arg ! 0, sizes input_arg ! 1, packed_WeightSizes c ! 2]
           (scalar_type input_arg) \<and>
     s' = submit_compute_job
            \<lparr>shader = (if packed_BiasDefined c then VK_KERNEL_baddbmm else VK_KERNEL_bmm),
             global_work_group_size = g, local_work_group_size = (8, 8, 1),
             arguments =
               (if packed_BiasDefined c
                then [y, input_arg\<lparr>device := Vulkan\<rparr>, packed_Weight c, packed_Bias c]
                else [y, input_arg\<lparr>device := Vulkan\<rparr>, packed_Weight c]),
             params_buffer =
               (if packed_BiasDefined c
                then Block_baddbmm (extents env y) k (extents env (packed_Bias c)) (alpha, beta)
                else Block_bmm (extents env y) k)\<rparr> s"
proof -
  from assms have r3: "ndimension input_arg = 3"
    unfolding run_baddbmm_context_def by (auto split: if_splits)
  then obtain a b d where abd: "sizes input_arg = [a, b, d]"
    unfolding ndimension_def
    by (cases "sizes input_arg"; cases "tl (sizes input_arg)"; cases "tl (tl (sizes input_arg))")
       auto
  have up: "map ((!) [a, b, d]) [0..<2] = [a, b]"
    by (simp add: upt_rec numeral_2_eq_2)
  show ?thesis
  proof (cases "packed_BiasDefined c")
    case True
    with assms r3 show ?thesis
      unfolding run_baddbmm_context_def Let_def vulkan_if_needed
      by (auto simp: bind_result_Inr layout_defs abd new_vTensor_def ndimension_def
          reshape_def up split: if_splits)
  next
    case False
    with assms r3 show ?thesis
      unfolding run_baddbmm_context_def Let_def vulkan_if_needed
      by (auto simp: bind_result_Inr layout_defs abd new_vTensor_def ndimension_def
          reshape_def up split: if_splits)
  qed
qed

subsection \<open>Evaluating the examples\<close>

lemma sample_run:
  "run_addmm_context sample_env (cpu_float_tensor [7, 3] []) alpha beta
     sample_linear_context False os oz s
   = Inr (new_vTensor [7, 2] kFloat,
          submit_compute_job
            \<lparr>shader = VK_KERNEL_mm, global_work_group_size = (1, 2, 1),
             local_work_group_size = (8, 8, 1),
             arguments =
               [new_vTensor [7, 2] kFloat,
                (cpu_float_tensor [7, 3] [])
                  \<lparr>device := Vulkan, gpu_memory_layout := TENSOR_WIDTH_PACKED\<rparr>,
                packed_Weight sample_linear_context],
             params_buffer = Block_mm (2, 1, 1) 3\<rparr> s)"
  apply (rule iffD2[OF run_addmm_context_Inr_iff])
  apply (rule exI[of _ "(cpu_float_tensor [7, 3] [])
           \<lparr>device := Vulkan, gpu_memory_layout := TENSOR_WIDTH_PACKED\<rparr>"])
  apply (rule exI[of _ "new_vTensor [7, 2] kFloat"])
  apply (rule exI[of _ VK_KERNEL_mm])
  apply (rule exI[of _ "Block_mm (2, 1, 1) 3"])
  apply (rule exI[of _ "(1, 2, 1)"])
  apply (simp add: cpu_float_tensor_def sample_linear_context_def sample_env_def
      new_vTensor_def tensor_defs layout_defs pack_inputs_using_height_packing_def
      convert_image_channels_packed_to_width_packed_def usable_def
      addmm_shader_and_params_def addmm_global_size_def div_up_def
      safe_downcast_uint32_def bind_result_simps)
  done

lemma sample_run_rank3:
  "run_addmm_context sample_env (cpu_float_tensor [4, 5, 3] []) alpha beta
     sample_linear_context False os oz s
   = Inr (new_vTensor [4, 5, 2] kFloat,
          submit_compute_job
            \<lparr>shader = VK_KERNEL_mm, global_work_group_size = (1, 5, 1),
             local_work_group_size = (8, 8, 1),
             arguments =
               [new_vTensor [20, 2] kFloat,
                (cpu_float_tensor [20, 3] [])
                  \<lparr>device := Vulkan, gpu_memory_layout := TENSOR_WIDTH_PACKED\<rparr>,
                packed_Weight sample_linear_context],
             params_buffer = Block_mm (2, 1, 1) 3\<rparr> s)"
  apply (rule iffD2[OF run_addmm_context_Inr_iff])
  apply (rule exI[of _ "(cpu_float_tensor [20, 3] [])
           \<lparr>device := Vulkan, gpu_memory_layout := TENSOR_WIDTH_PACKED\<rparr>"])
  apply (rule exI[of _ "new_vTensor [20, 2] kFloat"])
  apply (rule exI[of _ VK_KERNEL_mm])
  apply (rule exI[of _ "Block_mm (2, 1, 1) 3"])
  apply (rule exI[of _ "(1, 5, 1)"])
  apply (simp add: cpu_float_tensor_def sample_linear_context_def sample_env_def
      new_vTensor_def tensor_defs layout_defs pack_inputs_using_height_packing_def
      convert_image_channels_packed_to_width_packed_def usable_def
      addmm_shader_and_params_def addmm_global_size_def div_up_def
      safe_downcast_uint32_def bind_result_simps)
  done

lemma sample_batch_run:
  "run_baddbmm_context sample_env (cpu_float_tensor [5, 7, 3] []) alpha beta
     sample_batch_context s
   = Inr (new_vTensor [5, 7, 2] kFloat,
          submit_compute_job
            \<lparr>shader = VK_KERNEL_bmm, global_work_group_size = (1, 4, 2),
             local_work_group_size = (8, 8, 1),
             arguments =
               [new_vTensor [5, 7, 2] kFloat,
                (cpu_float_tensor [5, 7, 3] [])\<lparr>device := Vulkan\<rparr>,
                packed_Weight sample_batch_context],
             params_buffer = Block_bmm (2, 1, 1) 2\<rparr> s)"
proof -
  have up: "[0..<2] = [0, Suc 0]" by (simp add: upt_rec numeral_2_eq_2)
  show ?thesis
    by (simp add: run_baddbmm_context_def Let_def vulkan_if_needed usable_def
        usable_check_with_batch_def baddbmm_global_size_def cpu_float_tensor_def
        sample_batch_context_def sample_env_def new_vTensor_def tensor_defs layout_defs
        div_up_def safe_downcast_uint32_def safe_downcast_int32_def bind_result_simps
        reshape_def up vulkan_def)
qed

subsection \<open>A bias of rank 1 that is wider than the weight\<close>

lemma rank1_bias_context:
  "LinearPackedContext_new sample_env (cpu_float_tensor [2, 2] [1, 2, 3, 4])
     (some_Tensor (cpu_float_tensor [3] [5, 6, 7])) False
   = Inr \<lparr>packed_Weight =
            (cpu_float_tensor [2, 2] [1, 2, 3, 4])
              \<lparr>device := Vulkan, gpu_memory_layout := TENSOR_HEIGHT_PACKED\<rparr>,
          packed_Bias = (cpu_float_tensor [3] [5, 6, 7])\<lparr>device := Vulkan\<rparr>,
          packed_WeightSizes = [2, 2],
          packed_BiasDefined = True,
          unpacked = Some (cpu_float_tensor [2, 2] [1, 2, 3, 4],
                           some_Tensor (cpu_float_tensor [3] [5, 6, 7]))\<rparr>"
proof -
  have a: "available sample_env (cpu_float_tensor [2, 2] [1, 2, 3, 4])
             (some_Tensor (cpu_float_tensor [3] [5, 6, 7])) False = Inr True"
    by (simp add: available_def Let_def sample_env_def cpu_float_tensor_def layout_defs
        tensor_defs)
  have w: "pack_weights (cpu_float_tensor [2, 2] [1, 2, 3, 4]) False
     = Inr ((cpu_float_tensor [2, 2] [1, 2, 3, 4])
              \<lparr>device := Vulkan, gpu_memory_layout := TENSOR_HEIGHT_PACKED\<rparr>)"
    by (simp add: pack_weights_def pack_weights_using_height_packing_def
        convert_image_channels_packed_to_height_packed_def vulkan_def
        cpu_float_tensor_def tensor_defs)
  have b: "pack_biases (cpu_float_tensor [2, 2] [1, 2, 3, 4])
             (some_Tensor (cpu_float_tensor [3] [5, 6, 7])) False
           = Inr ((cpu_float_tensor [3] [5, 6, 7])\<lparr>device := Vulkan\<rparr>)"
    by (simp add: pack_biases_def cpu_float_tensor_def is_vulkan_def vulkan_def)
  show ?thesis
    unfolding LinearPackedContext_new_def a w b bind_result_simps
    by (simp add: sample_env_def bias_is_defined_def cpu_float_tensor_def)
qed

lemma rank1_bias_run:
  "run_addmm_context sample_env (cpu_float_tensor [1, 2] [1, 1]) 1 1
     \<lparr>packed_Weight =
            (cpu_float_tensor [2, 2] [1, 2, 3, 4])
              \<lparr>device := Vulkan, gpu_memory_layout := TENSOR_HEIGHT_PACKED\<rparr>,
          packed_Bias = (cpu_float_tensor [3] [5, 6, 7])\<lparr>device := Vulkan\<rparr>,
          packed_WeightSizes = [2, 2],
          packed_BiasDefined = True,
          unpacked = u\<rparr> False 0 0 s
   = Inr (new_vTensor [1, 2] kFloat,
          submit_compute_job
            \<lparr>shader = VK_KERNEL_addmm, global_work_group_size = (1, 1, 1),
             local_work_group_size = (8, 8, 1),
             arguments =
               [new_vTensor [1, 2] kFloat,
                (cpu_float_tensor [1, 2] [1, 1])
                  \<lparr>device := Vulkan, gpu_memory_layout := TENSOR_WIDTH_PACKED\<rparr>,
                (cpu_float_tensor [2, 2] [1, 2, 3, 4])
                  \<lparr>device := Vulkan, gpu_memory_layout := TENSOR_HEIGHT_PACKED\<rparr>,
                (cpu_float_tensor [3] [5, 6, 7])\<lparr>device := Vulkan\<rparr>],
             params_buffer = Block_addmm (2, 1, 1) 2 (3, 1, 1) (1, 1)\<rparr> s)"
  apply (rule iffD2[OF run_addmm_context_Inr_iff])
  apply (rule exI[of _ "(cpu_float_tensor [1, 2] [1, 1])
           \<lparr>device := Vulkan, gpu_memory_layout := TENSOR_WIDTH_PACKED\<rparr>"])
  apply (rule exI[of _ "new_vTensor [1, 2] kFloat"])
  apply (rule exI[of _ VK_KERNEL_addmm])
  apply (rule exI[of _ "Block_addmm (2, 1, 1) 2 (3, 1, 1) (1, 1)"])
  apply (rule exI[of _ "(1, 1, 1)"])
  apply (simp add: cpu_float_tensor_def sample_env_def
      new_vTensor_def tensor_defs layout_defs pack_inputs_using_height_packing_def
      convert_image_channels_packed_to_width_packed_def usable_def
      addmm_shader_and_params_def addmm_global_size_def div_up_def
      safe_downcast_uint32_def bind_result_simps)
  done

text \<open>
  Claim C1 asks that the unbatched \<open>available\<close> reject a bias of rank 1 whose length
  is neither the width of the weight nor 1. The code does not: the comparison of the
  widths sits behind \<^verbatim>\<open>bias->ndimension() > 1\<close>, which keeps
  \<^verbatim>\<open>size(1)\<close> away from a tensor of rank 1, and the other branch is
  \<^verbatim>\<open>true\<close>. With a weight of shape \<open>(2, 2)\<close> and a bias of shape \<open>(3)\<close> the
  unbatched check returns true, although it rejects the same three numbers as a bias of
  shape \<open>(1, 3)\<close>, and although \<open>available_check_with_batch\<close> rejects the bias of
  shape \<open>(3)\<close> for a batch of one such weight. \<open>addmm\<close> then submits the addmm
  kernel with the bias of 3 elements bound to an output of width 2.
\<close>

theorem available_rank1_bias_accepted:
  "available sample_env (cpu_float_tensor [2, 2] [1, 2, 3, 4])
     (some_Tensor (cpu_float_tensor [3] [5, 6, 7])) False = Inr True \<and>
   available sample_env (cpu_float_tensor [2, 2] [1, 2, 3, 4])
     (some_Tensor (cpu_float_tensor [1, 3] [5, 6, 7])) False = Inr False \<and>
   available sample_env (cpu_float_tensor [1, 2, 2] [1, 2, 3, 4])
     (some_Tensor (cpu_float_tensor [3] [5, 6, 7])) True = Inr False \<and>
   (\<exists>y s'. addmm sample_env (cpu_float_tensor [3] [5, 6, 7]) (cpu_float_tensor [1, 2] [1, 1])
             (cpu_float_tensor [2, 2] [1, 2, 3, 4]) 1 1 empty_queue = Inr (y, s') \<and>
           sizes y = [1, 2] \<and>
           map shader (submitted s') = [VK_KERNEL_addmm] \<and>
           map (\<lambda>j. map sizes (arguments j)) (submitted s') = [[[1, 2], [1, 2], [2, 2], [3]]])"
proof -
  have a: "available sample_env (cpu_float_tensor [2, 2] [1, 2, 3, 4])
     (some_Tensor (cpu_float_tensor [3] [5, 6, 7])) False = Inr True"
    "available sample_env (cpu_float_tensor [2, 2] [1, 2, 3, 4])
     (some_Tensor (cpu_float_tensor [1, 3] [5, 6, 7])) False = Inr False"
    "available sample_env (cpu_float_tensor [1, 2, 2] [1, 2, 3, 4])
     (some_Tensor (cpu_float_tensor [3] [5, 6, 7])) True = Inr False"
    by (simp_all add: available_def available_check_with_batch_def Let_def sample_env_def
        cpu_float_tensor_def layout_defs tensor_defs)
  have r: "\<exists>y s'. addmm sample_env (cpu_float_tensor [3] [5, 6, 7]) (cpu_float_tensor [1, 2] [1, 1])
             (cpu_float_tensor [2, 2] [1, 2, 3, 4]) 1 1 empty_queue = Inr (y, s') \<and>
           sizes y = [1, 2] \<and>
           map shader (submitted s') = [VK_KERNEL_addmm] \<and>
           map (\<lambda>j. map sizes (arguments j)) (submitted s') = [[[1, 2], [1, 2], [2, 2], [3]]]"
    unfolding addmm_def rank1_bias_context bind_result_simps rank1_bias_run
    by (simp add: submit_compute_job_def empty_queue_def new_vTensor_def cpu_float_tensor_def)
  from a r show ?thesis by simp
qed

subsection \<open>One kernel, one job\<close>

text \<open>
  Claim C6. A call of \<^verbatim>\<open>run_addmm_context\<close> that returns has added exactly one job
  to the queue. Its shader is chosen by \<open>quantized\<close> and the bias-defined flag of the
  context: \<open>mm\<close> or \<open>addmm\<close> when not quantized, and when quantized the \<open>qint8\<close>
  variant of \<open>quantized_mm\<close> or \<open>quantized_addmm\<close> if the dtype of the input is
  \<open>kQInt8\<close>, the \<open>quint8\<close> variant otherwise. Its output image has sizes
  \<open>(out_rows, out_cols)\<close>, the rows of the flattened input and the width of the weight,
  and its global work-group size is \<open>(ceil(out_cols/4), ceil(out_rows/4), 1)\<close>.
  A call of \<^verbatim>\<open>run_baddbmm_context\<close> that returns has added exactly one job, with
  shader \<open>bmm\<close> or \<open>baddbmm\<close>, a float input, an output of sizes
  \<open>(batch, out_rows, out_cols)\<close> and the global work-group size
  \<open>(ceil(out_cols/2), ceil(out_rows/2), ceil(batch/4))\<close>. The local work-group size is
  \<open>(8, 8, 1)\<close> in both.
\<close>

theorem dispatch_submits_one_job:
  "(run_addmm_context env input_arg alpha beta c quantized os oz s = Inr (y, s') \<longrightarrow>
      submitted s' = submitted s @ [last (submitted s')] \<and>
      shader (last (submitted s')) =
        (if quantized
         then if packed_BiasDefined c
              then if scalar_type input_arg = kQInt8
                   then VK_KERNEL_quantized_addmm_qint8
                   else VK_KERNEL_quantized_addmm_quint8
              else if scalar_type input_arg = kQInt8
                   then VK_KERNEL_quantized_mm_qint8
                   else VK_KERNEL_quantized_mm_quint8
         else if packed_BiasDefined c then VK_KERNEL_addmm else VK_KERNEL_mm) \<and>
      sizes (hd (arguments (last (submitted s')))) =
        [prod_list (butlast (sizes input_arg)), packed_WeightSizes c ! Parameter_width] \<and>
      global_work_group_size (last (submitted s')) =
        (nat \<lceil>real (packed_WeightSizes c ! Parameter_width) / 4\<rceil>,
         nat \<lceil>real (prod_list (butlast (sizes input_arg))) / 4\<rceil>, 1) \<and>
      local_work_group_size (last (submitted s')) = (8, 8, 1)) \<and>
   (run_baddbmm_context env input_arg alpha beta c s = Inr (y, s') \<longrightarrow>
      submitted s' = submitted s @ [last (submitted s')] \<and>
      shader (last (submitted s')) =
        (if packed_BiasDefined c then VK_KERNEL_baddbmm else VK_KERNEL_bmm) \<and>
      scalar_type input_arg = kFloat \<and>
      sizes (hd (arguments (last (submitted s')))) =
        [sizes input_arg ! BatchMatrices_batch, sizes input_arg ! BatchMatrices_height,
         packed_WeightSizes c ! BatchMatrices_width] \<and>
      global_work_group_size (last (submitted s')) =
        (nat \<lceil>real (packed_WeightSizes c ! BatchMatrices_width) / 2\<rceil>,
         nat \<lceil>real (sizes input_arg ! BatchMatrices_height) / 2\<rceil>,
         nat \<lceil>real (sizes input_arg ! BatchMatrices_batch) / 4\<rceil>) \<and>
      local_work_group_size (last (submitted s')) = (8, 8, 1))"
proof (intro conjI impI)
  assume run: "run_addmm_context env input_arg alpha beta c quantized os oz s = Inr (y, s')"
  then obtain v_input v_output k p g where
    vo: "v_output =
       (if quantized
        then (new_vTensor [prod_list (butlast (sizes input_arg)), packed_WeightSizes c ! 1]
                (scalar_type input_arg))
               \<lparr>v_is_quantized := True, q_scale := os, q_zero_point := oz\<rparr>
        else new_vTensor [prod_list (butlast (sizes input_arg)), packed_WeightSizes c ! 1]
               (scalar_type input_arg))"
    and sp: "addmm_shader_and_params env (packed_BiasDefined c) quantized input_arg v_output
       v_input (packed_Weight c) (packed_Bias c) alpha beta os oz = Inr (k, p)"
    and gs: "addmm_global_size v_output = Inr g"
    and s': "s' = submit_compute_job
            \<lparr>shader = k, global_work_group_size = g, local_work_group_size = (8, 8, 1),
             arguments =
               (if packed_BiasDefined c
                then [v_output, v_input, packed_Weight c, packed_Bias c]
                else [v_output, v_input, packed_Weight c]),
             params_buffer = p\<rparr> s"
    unfolding run_addmm_context_Inr_iff by blast
  have so: "sizes v_output = [prod_list (butlast (sizes input_arg)), packed_WeightSizes c ! 1]"
    unfolding vo by (simp add: new_vTensor_def)
  show "submitted s' = submitted s @ [last (submitted s')]"
    and "local_work_group_size (last (submitted s')) = (8, 8, 1)"
    unfolding s' by (simp_all add: submit_compute_job_def)
  show "shader (last (submitted s')) =
        (if quantized
         then if packed_BiasDefined c
              then if scalar_type input_arg = kQInt8
                   then VK_KERNEL_quantized_addmm_qint8
                   else VK_KERNEL_quantized_addmm_quint8
              else if scalar_type input_arg = kQInt8
                   then VK_KERNEL_quantized_mm_qint8
                   else VK_KERNEL_quantized_mm_quint8
         else if packed_BiasDefined c then VK_KERNEL_addmm else VK_KERNEL_mm)"
    using addmm_shader_and_params_Inr[OF sp] unfolding s'
    by (simp add: submit_compute_job_def)
  show "sizes (hd (arguments (last (submitted s')))) =
        [prod_list (butlast (sizes input_arg)), packed_WeightSizes c ! Parameter_width]"
    unfolding s' using so by (simp add: submit_compute_job_def layout_defs)
  show "global_work_group_size (last (submitted s')) =
        (nat \<lceil>real (packed_WeightSizes c ! Parameter_width) / 4\<rceil>,
         nat \<lceil>real (prod_list (butlast (sizes input_arg))) / 4\<rceil>, 1)"
    using addmm_global_size_Inr[OF gs] unfolding s' so
    by (simp add: submit_compute_job_def layout_defs div_up_4)
next
  assume run: "run_baddbmm_context env input_arg alpha beta c s = Inr (y, s')"
  from run_baddbmm_context_Inr[OF this] obtain k g where
    r3: "ndimension input_arg = 3"
    and us: "usable (input_arg\<lparr>device := Vulkan\<rparr>) (packed_WeightSizes c) True"
    and gs: "baddbmm_global_size (input_arg\<lparr>device := Vulkan\<rparr>) (packed_WeightSizes c) = Inr g"
    and y: "y = new_vTensor [sizes input_arg ! 0, sizes input_arg ! 1, packed_WeightSizes c ! 2]
           (scalar_type input_arg)"
    and s': "s' = submit_compute_job
            \<lparr>shader = (if packed_BiasDefined c then VK_KERNEL_baddbmm else VK_KERNEL_bmm),
             global_work_group_size = g, local_work_group_size = (8, 8, 1),
             arguments =
               (if packed_BiasDefined c
                then [y, input_arg\<lparr>device := Vulkan\<rparr>, packed_Weight c, packed_Bias c]
                else [y, input_arg\<lparr>device := Vulkan\<rparr>, packed_Weight c]),
             params_buffer =
               (if packed_BiasDefined c
                then Block_baddbmm (extents env y) k (extents env (packed_Bias c)) (alpha, beta)
                else Block_bmm (extents env y) k)\<rparr> s"
    by blast
  show "submitted s' = submitted s @ [last (submitted s')]"
    and "local_work_group_size (last (submitted s')) = (8, 8, 1)"
    and "shader (last (submitted s')) =
        (if packed_BiasDefined c then VK_KERNEL_baddbmm else VK_KERNEL_bmm)"
    unfolding s' by (simp_all add: submit_compute_job_def)
  show "scalar_type input_arg = kFloat"
    using us by (simp add: usable_def usable_check_with_batch_def)
  show "sizes (hd (arguments (last (submitted s')))) =
        [sizes input_arg ! BatchMatrices_batch, sizes input_arg ! BatchMatrices_height,
         packed_WeightSizes c ! BatchMatrices_width]"
    unfolding s' y by (simp add: submit_compute_job_def layout_defs new_vTensor_def)
  show "global_work_group_size (last (submitted s')) =
        (nat \<lceil>real (packed_WeightSizes c ! BatchMatrices_width) / 2\<rceil>,
         nat \<lceil>real (sizes input_arg ! BatchMatrices_height) / 2\<rceil>,
         nat \<lceil>real (sizes input_arg ! BatchMatrices_batch) / 4\<rceil>)"
    using baddbmm_global_size_Inr[OF gs] unfolding s'
    by (simp add: submit_compute_job_def layout_defs div_up_4 div_up_2)
qed

theorem dispatch_submits_one_job_witness:
  "(\<exists>y s'. run_addmm_context sample_env (cpu_float_tensor [7, 3] []) 1 1
              sample_linear_context False 0 0 empty_queue = Inr (y, s') \<and>
           submitted s' = [last (submitted s')] \<and>
           shader (last (submitted s')) = VK_KERNEL_mm \<and>
           sizes (hd (arguments (last (submitted s')))) = [7, 2] \<and>
           global_work_group_size (last (submitted s')) = (1, 2, 1) \<and>
           local_work_group_size (last (submitted s')) = (8, 8, 1)) \<and>
   (\<exists>y s'. run_baddbmm_context sample_env (cpu_float_tensor [5, 7, 3] []) 1 1
              sample_batch_context empty_queue = Inr (y, s') \<and>
           submitted s' = [last (submitted s')] \<and>
           shader (last (submitted s')) = VK_KERNEL_bmm \<and>
           sizes (hd (arguments (last (submitted s')))) = [5, 7, 2] \<and>
           global_work_group_size (last (submitted s')) = (1, 4, 2) \<and>
           local_work_group_size (last (submitted s')) = (8, 8, 1))"
proof -
  obtain y1 s1 where r1: "run_addmm_context sample_env (cpu_float_tensor [7, 3] []) 1 1
               sample_linear_context False 0 0 empty_queue = Inr (y1, s1)"
    using sample_run by blast
  obtain y2 s2 where r2: "run_baddbmm_context sample_env (cpu_float_tensor [5, 7, 3] []) 1 1
               sample_batch_context empty_queue = Inr (y2, s2)"
    using sample_batch_run by blast
  have ceil: "nat \<lceil>(1::real) / 2\<rceil> = 1" "nat \<lceil>(7::real) / 2\<rceil> = 4"
    "nat \<lceil>(5::real) / 4\<rceil> = 2" "nat \<lceil>(7::real) / 4\<rceil> = 2"
    using div_up_4[of 2] div_up_2[of 7] div_up_4[of 5] div_up_4[of 7]
    by (simp_all add: div_up_def)
  have v: "packed_WeightSizes sample_linear_context = [3, 2]"
    "packed_BiasDefined sample_linear_context = False"
    "packed_WeightSizes sample_batch_context = [5, 3, 2]"
    "packed_BiasDefined sample_batch_context = False"
    "sizes (cpu_float_tensor [7, 3] []) = [7, 3]"
    "sizes (cpu_float_tensor [5, 7, 3] []) = [5, 7, 3]"
    "submitted empty_queue = []"
    by (simp_all add: sample_linear_context_def sample_batch_context_def cpu_float_tensor_def
        empty_queue_def)
  from dispatch_submits_one_job[where env = sample_env
      and input_arg = "cpu_float_tensor [7, 3] []" and alpha = 1 and beta = 1
      and c = sample_linear_context and quantized = False and os = 0 and oz = 0
      and s = empty_queue and y = y1 and s' = s1] r1
  have 1: "submitted s1 = [last (submitted s1)] \<and>
           shader (last (submitted s1)) = VK_KERNEL_mm \<and>
           sizes (hd (arguments (last (submitted s1)))) = [7, 2] \<and>
           global_work_group_size (last (submitted s1)) = (1, 2, 1) \<and>
           local_work_group_size (last (submitted s1)) = (8, 8, 1)"
    unfolding v layout_defs by (simp add: ceil)
  from dispatch_submits_one_job[where env = sample_env
      and input_arg = "cpu_float_tensor [5, 7, 3] []" and alpha = 1 and beta = 1
      and c = sample_batch_context and s = empty_queue and y = y2 and s' = s2] r2
  have 2: "submitted s2 = [last (submitted s2)] \<and>
           shader (last (submitted s2)) = VK_KERNEL_bmm \<and>
           sizes (hd (arguments (last (submitted s2)))) = [5, 7, 2] \<and>
           global_work_group_size (last (submitted s2)) = (1, 4, 2) \<and>
           local_work_group_size (last (submitted s2)) = (8, 8, 1)"
    unfolding v layout_defs by (simp add: ceil)
  from r1 1 r2 2 show ?thesis by blast
qed

subsection \<open>The shape of the result\<close>

text \<open>
  Claim C8. When \<^verbatim>\<open>run_addmm_context\<close> returns, the input had rank \<open>d \<ge> 2\<close>; the
  input image bound to the job is 2-D, with the product of the leading \<open>d - 1\<close> sizes
  of the input as its rows and the last size as its columns; the result has rank \<open>d\<close>,
  the first \<open>d - 1\<close> sizes of the input and the width of the weight as its last size;
  the output image of the job is 2-D, with the rows of the flattened input;
  and for an input of rank 2 the result is the output image of the job itself, for a
  higher rank that image with the new shape.
\<close>

theorem run_addmm_context_shape:
  "run_addmm_context env input_arg alpha beta c quantized os oz s = Inr (y, s') \<longrightarrow>
     2 \<le> ndimension input_arg \<and>
     sizes (arguments (last (submitted s')) ! 1) =
       [prod_list (butlast (sizes input_arg)), last (sizes input_arg)] \<and>
     sizes (hd (arguments (last (submitted s')))) =
       [prod_list (butlast (sizes input_arg)), packed_WeightSizes c ! Parameter_width] \<and>
     ndimension y = ndimension input_arg \<and>
     sizes y = butlast (sizes input_arg) @ [packed_WeightSizes c ! Parameter_width] \<and>
     (if ndimension input_arg = 2
      then y = hd (arguments (last (submitted s')))
      else y = (hd (arguments (last (submitted s'))))
                 \<lparr>sizes := butlast (sizes input_arg) @
                              [packed_WeightSizes c ! Parameter_width]\<rparr>)"
proof
  assume "run_addmm_context env input_arg alpha beta c quantized os oz s = Inr (y, s')"
  then obtain v_input v_output k p g where
    r2: "2 \<le> ndimension input_arg"
    and pi: "pack_inputs_using_height_packing
       (input_arg\<lparr>sizes := [prod_list (butlast (sizes input_arg)), last (sizes input_arg)],
                  device := Vulkan\<rparr>) = Inr v_input"
    and vo: "v_output =
       (if quantized
        then (new_vTensor [prod_list (butlast (sizes input_arg)), packed_WeightSizes c ! 1]
                (scalar_type input_arg))
               \<lparr>v_is_quantized := True, q_scale := os, q_zero_point := oz\<rparr>
        else new_vTensor [prod_list (butlast (sizes input_arg)), packed_WeightSizes c ! 1]
               (scalar_type input_arg))"
    and s': "s' = submit_compute_job
            \<lparr>shader = k, global_work_group_size = g, local_work_group_size = (8, 8, 1),
             arguments =
               (if packed_BiasDefined c
                then [v_output, v_input, packed_Weight c, packed_Bias c]
                else [v_output, v_input, packed_Weight c]),
             params_buffer = p\<rparr> s"
    and y: "y = v_output\<lparr>sizes := butlast (sizes input_arg) @ [packed_WeightSizes c ! 1]\<rparr>"
    unfolding run_addmm_context_Inr_iff by blast
  have so: "sizes v_output = [prod_list (butlast (sizes input_arg)), packed_WeightSizes c ! 1]"
    unfolding vo by (simp add: new_vTensor_def)
  have si: "sizes v_input = [prod_list (butlast (sizes input_arg)), last (sizes input_arg)]"
    using pack_inputs_using_height_packing_Inr[OF pi] by simp
  have a0: "hd (arguments (last (submitted s'))) = v_output"
    and a1: "arguments (last (submitted s')) ! 1 = v_input"
    unfolding s' by (simp_all add: submit_compute_job_def)
  have ne: "sizes input_arg \<noteq> []" using r2 by (auto simp: ndimension_def)
  have y2: "y = v_output" if "ndimension input_arg = 2"
  proof -
    from that obtain a b where ab: "sizes input_arg = [a, b]"
      unfolding ndimension_def by (cases "sizes input_arg"; cases "tl (sizes input_arg)") auto
    show ?thesis unfolding y using so by (cases v_output) (simp add: ab)
  qed
  show "2 \<le> ndimension input_arg \<and>
     sizes (arguments (last (submitted s')) ! 1) =
       [prod_list (butlast (sizes input_arg)), last (sizes input_arg)] \<and>
     sizes (hd (arguments (last (submitted s')))) =
       [prod_list (butlast (sizes input_arg)), packed_WeightSizes c ! Parameter_width] \<and>
     ndimension y = ndimension input_arg \<and>
     sizes y = butlast (sizes input_arg) @ [packed_WeightSizes c ! Parameter_width] \<and>
     (if ndimension input_arg = 2
      then y = hd (arguments (last (submitted s')))
      else y = (hd (arguments (last (submitted s'))))
                 \<lparr>sizes := butlast (sizes input_arg) @
                              [packed_WeightSizes c ! Parameter_width]\<rparr>)"
    unfolding a0 a1 si using r2 ne y2 y so
    by (simp add: ndimension_def layout_defs)
qed

theorem run_addmm_context_shape_witness:
  "(\<exists>y s'. run_addmm_context sample_env (cpu_float_tensor [4, 5, 3] []) 1 1
              sample_linear_context False 0 0 empty_queue = Inr (y, s') \<and>
           sizes (arguments (last (submitted s')) ! 1) = [20, 3] \<and>
           sizes (hd (arguments (last (submitted s')))) = [20, 2] \<and>
           sizes y = [4, 5, 2]) \<and>
   (\<exists>y s'. run_addmm_context sample_env (cpu_float_tensor [7, 3] []) 1 1
              sample_linear_context False 0 0 empty_queue = Inr (y, s') \<and>
           sizes y = [7, 2] \<and> y = hd (arguments (last (submitted s'))))"
proof -
  obtain y1 s1 where r1: "run_addmm_context sample_env (cpu_float_tensor [4, 5, 3] []) 1 1
               sample_linear_context False 0 0 empty_queue = Inr (y1, s1)"
    using sample_run_rank3 by blast
  obtain y2 s2 where r2: "run_addmm_context sample_env (cpu_float_tensor [7, 3] []) 1 1
               sample_linear_context False 0 0 empty_queue = Inr (y2, s2)"
    using sample_run by blast
  have v: "packed_WeightSizes sample_linear_context = [3, 2]"
    "sizes (cpu_float_tensor [7, 3] []) = [7, 3]"
    "sizes (cpu_float_tensor [4, 5, 3] []) = [4, 5, 3]"
    by (simp_all add: sample_linear_context_def cpu_float_tensor_def)
  from run_addmm_context_shape[where env = sample_env
      and input_arg = "cpu_float_tensor [4, 5, 3] []" and alpha = 1 and beta = 1
      and c = sample_linear_context and quantized = False and os = 0 and oz = 0
      and s = empty_queue and y = y1 and s' = s1] r1
  have 1: "sizes (arguments (last (submitted s1)) ! 1) = [20, 3] \<and>
           sizes (hd (arguments (last (submitted s1)))) = [20, 2] \<and> sizes y1 = [4, 5, 2]"
    unfolding v ndimension_def layout_defs by (auto split: if_splits)
  from run_addmm_context_shape[where env = sample_env
      and input_arg = "cpu_float_tensor [7, 3] []" and alpha = 1 and beta = 1
      and c = sample_linear_context and quantized = False and os = 0 and oz = 0
      and s = empty_queue and y = y2 and s' = s2] r2
  have 2: "sizes y2 = [7, 2] \<and> y2 = hd (arguments (last (submitted s2)))"
    unfolding v ndimension_def layout_defs by simp
  from r1 1 r2 2 show ?thesis by blast
qed

subsection \<open>Running a context twice\<close>

lemma run_addmm_context_again:
  assumes "run_addmm_context env input_arg alpha beta c quantized os oz s = Inr (y, s1)"
  shows "s1 = submit_compute_job (last (submitted s1)) s \<and>
         run_addmm_context env input_arg alpha beta c quantized os oz t
           = Inr (y, submit_compute_job (last (submitted s1)) t)"
proof -
  from assms obtain v_input v_output k p g where
    r2: "2 \<le> ndimension input_arg"
    and pi: "pack_inputs_using_height_packing
       (input_arg\<lparr>sizes := [prod_list (butlast (sizes input_arg)), last (sizes input_arg)],
                  device := Vulkan\<rparr>) = Inr v_input"
    and us: "usable (input_arg\<lparr>sizes := [prod_list (butlast (sizes input_arg)), last (sizes input_arg)],
                         device := Vulkan\<rparr>) (packed_WeightSizes c) False"
    and q1: "quantized \<longrightarrow> v_is_quantized (packed_Weight c) \<and> v_is_quantized v_input"
    and q2: "\<not> quantized \<longrightarrow> gpu_memory_layout (packed_Weight c) = TENSOR_HEIGHT_PACKED"
    and vo: "v_output =
       (if quantized
        then (new_vTensor [prod_list (butlast (sizes input_arg)), packed_WeightSizes c ! 1]
                (scalar_type input_arg))
               \<lparr>v_is_quantized := True, q_scale := os, q_zero_point := oz\<rparr>
        else new_vTensor [prod_list (butlast (sizes input_arg)), packed_WeightSizes c ! 1]
               (scalar_type input_arg))"
    and sp: "addmm_shader_and_params env (packed_BiasDefined c) quantized input_arg v_output
       v_input (packed_Weight c) (packed_Bias c) alpha beta os oz = Inr (k, p)"
    and gs: "addmm_global_size v_output = Inr g"
    and s1: "s1 = submit_compute_job
            \<lparr>shader = k, global_work_group_size = g, local_work_group_size = (8, 8, 1),
             arguments =
               (if packed_BiasDefined c
                then [v_output, v_input, packed_Weight c, packed_Bias c]
                else [v_output, v_input, packed_Weight c]),
             params_buffer = p\<rparr> s"
    and y: "y = v_output\<lparr>sizes := butlast (sizes input_arg) @ [packed_WeightSizes c ! 1]\<rparr>"
    unfolding run_addmm_context_Inr_iff by blast
  let ?job = "\<lparr>shader = k, global_work_group_size = g, local_work_group_size = (8, 8, 1),
             arguments =
               (if packed_BiasDefined c
                then [v_output, v_input, packed_Weight c, packed_Bias c]
                else [v_output, v_input, packed_Weight c]),
             params_buffer = p\<rparr>"
  have l: "last (submitted s1) = ?job" unfolding s1 by (simp add: submit_compute_job_def)
  have "run_addmm_context env input_arg alpha beta c quantized os oz t
           = Inr (y, submit_compute_job ?job t)"
    unfolding run_addmm_context_Inr_iff
    using r2 pi us q1 q2 vo sp gs y by blast
  then show ?thesis unfolding l using s1 by simp
qed

lemma run_addmm_context_reads:
  assumes "packed_Weight c' = packed_Weight c" and "packed_Bias c' = packed_Bias c"
    and "packed_WeightSizes c' = packed_WeightSizes c"
    and "packed_BiasDefined c' = packed_BiasDefined c"
  shows "run_addmm_context env input_arg alpha beta c' quantized os oz s
           = run_addmm_context env input_arg alpha beta c quantized os oz s"
  unfolding run_addmm_context_def assms ..

lemma prepacked_submit: "prepacked (submit_compute_job j s) = prepacked s"
  by (simp add: submit_compute_job_def)

lemma run_addmm_context_job:
  assumes "run_addmm_context env input_arg alpha beta c quantized os oz s = Inr (y, s1)"
  shows "arguments (last (submitted s1)) ! 2 = packed_Weight c \<and>
         (packed_BiasDefined c \<longrightarrow> arguments (last (submitted s1)) ! 3 = packed_Bias c) \<and>
         length (arguments (last (submitted s1))) = (if packed_BiasDefined c then 4 else 3)"
proof -
  from assms obtain v_input v_output k p g where
    s1: "s1 = submit_compute_job
            \<lparr>shader = k, global_work_group_size = g, local_work_group_size = (8, 8, 1),
             arguments =
               (if packed_BiasDefined c
                then [v_output, v_input, packed_Weight c, packed_Bias c]
                else [v_output, v_input, packed_Weight c]),
             params_buffer = p\<rparr> s"
    unfolding run_addmm_context_Inr_iff by blast
  show ?thesis unfolding s1 by (simp add: submit_compute_job_def)
qed

lemma created_context:
  "LinearPackedContext_new sample_env (cpu_float_tensor [3, 2] ws) nullopt False
   = Inr \<lparr>packed_Weight =
            (cpu_float_tensor [3, 2] ws)
              \<lparr>device := Vulkan, gpu_memory_layout := TENSOR_HEIGHT_PACKED\<rparr>,
          packed_Bias = (new_vTensor [1] kFloat)\<lparr>elems := [0]\<rparr>,
          packed_WeightSizes = [3, 2],
          packed_BiasDefined = False,
          unpacked = Some (cpu_float_tensor [3, 2] ws, nullopt)\<rparr>"
proof -
  have a: "available sample_env (cpu_float_tensor [3, 2] ws) nullopt False = Inr True"
    by (simp add: available_def Let_def sample_env_def cpu_float_tensor_def layout_defs
        tensor_defs)
  have w: "pack_weights (cpu_float_tensor [3, 2] ws) False
     = Inr ((cpu_float_tensor [3, 2] ws)
              \<lparr>device := Vulkan, gpu_memory_layout := TENSOR_HEIGHT_PACKED\<rparr>)"
    by (simp add: pack_weights_def pack_weights_using_height_packing_def
        convert_image_channels_packed_to_height_packed_def vulkan_def
        cpu_float_tensor_def tensor_defs)
  have b: "pack_biases (cpu_float_tensor [3, 2] ws) nullopt False
           = Inr ((new_vTensor [1] kFloat)\<lparr>elems := [0]\<rparr>)"
    by (simp add: pack_biases_def cpu_float_tensor_def)
  show ?thesis
    unfolding LinearPackedContext_new_def a w b bind_result_simps
    by (simp add: sample_env_def bias_is_defined_def cpu_float_tensor_def)
qed

lemma created_context_bias:
  "LinearPackedContext_new sample_env (cpu_float_tensor [3, 2] ws)
     (some_Tensor (cpu_float_tensor [2] bs)) False
   = Inr \<lparr>packed_Weight =
            (cpu_float_tensor [3, 2] ws)
              \<lparr>device := Vulkan, gpu_memory_layout := TENSOR_HEIGHT_PACKED\<rparr>,
          packed_Bias = (cpu_float_tensor [2] bs)\<lparr>device := Vulkan\<rparr>,
          packed_WeightSizes = [3, 2],
          packed_BiasDefined = True,
          unpacked = Some (cpu_float_tensor [3, 2] ws,
                           some_Tensor (cpu_float_tensor [2] bs))\<rparr>"
proof -
  have a: "available sample_env (cpu_float_tensor [3, 2] ws)
             (some_Tensor (cpu_float_tensor [2] bs)) False = Inr True"
    by (simp add: available_def Let_def sample_env_def cpu_float_tensor_def layout_defs
        tensor_defs)
  have w: "pack_weights (cpu_float_tensor [3, 2] ws) False
     = Inr ((cpu_float_tensor [3, 2] ws)
              \<lparr>device := Vulkan, gpu_memory_layout := TENSOR_HEIGHT_PACKED\<rparr>)"
    by (simp add: pack_weights_def pack_weights_using_height_packing_def
        convert_image_channels_packed_to_height_packed_def vulkan_def
        cpu_float_tensor_def tensor_defs)
  have b: "pack_biases (cpu_float_tensor [3, 2] ws)
             (some_Tensor (cpu_float_tensor [2] bs)) False
           = Inr ((cpu_float_tensor [2] bs)\<lparr>device := Vulkan\<rparr>)"
    by (simp add: pack_biases_def cpu_float_tensor_def is_vulkan_def vulkan_def)
  show ?thesis
    unfolding LinearPackedContext_new_def a w b bind_result_simps
    by (simp add: sample_env_def bias_is_defined_def cpu_float_tensor_def)
qed

lemma created_run:
  assumes "packed_Weight c = (cpu_float_tensor [3, 2] ws)
              \<lparr>device := Vulkan, gpu_memory_layout := TENSOR_HEIGHT_PACKED\<rparr>"
    and "packed_WeightSizes c = [3, 2]" and "\<not> packed_BiasDefined c"
  shows "run_addmm_context sample_env (cpu_float_tensor [1, 3] xs) alpha beta c False os oz s
   = Inr (new_vTensor [1, 2] kFloat,
          submit_compute_job
            \<lparr>shader = VK_KERNEL_mm, global_work_group_size = (1, 1, 1),
             local_work_group_size = (8, 8, 1),
             arguments =
               [new_vTensor [1, 2] kFloat,
                (cpu_float_tensor [1, 3] xs)
                  \<lparr>device := Vulkan, gpu_memory_layout := TENSOR_WIDTH_PACKED\<rparr>,
                (cpu_float_tensor [3, 2] ws)
                  \<lparr>device := Vulkan, gpu_memory_layout := TENSOR_HEIGHT_PACKED\<rparr>],
             params_buffer = Block_mm (2, 1, 1) 3\<rparr> s)"
  apply (rule iffD2[OF run_addmm_context_Inr_iff])
  apply (rule exI[of _ "(cpu_float_tensor [1, 3] xs)
           \<lparr>device := Vulkan, gpu_memory_layout := TENSOR_WIDTH_PACKED\<rparr>"])
  apply (rule exI[of _ "new_vTensor [1, 2] kFloat"])
  apply (rule exI[of _ VK_KERNEL_mm])
  apply (rule exI[of _ "Block_mm (2, 1, 1) 3"])
  apply (rule exI[of _ "(1, 1, 1)"])
  apply (simp add: assms cpu_float_tensor_def sample_env_def
      new_vTensor_def tensor_defs layout_defs pack_inputs_using_height_packing_def
      convert_image_channels_packed_to_width_packed_def usable_def
      addmm_shader_and_params_def addmm_global_size_def div_up_def
      safe_downcast_uint32_def bind_result_simps)
  done

lemma created_run_bias:
  assumes "packed_Weight c = (cpu_float_tensor [3, 2] ws)
              \<lparr>device := Vulkan, gpu_memory_layout := TENSOR_HEIGHT_PACKED\<rparr>"
    and "packed_Bias c = (cpu_float_tensor [2] bs)\<lparr>device := Vulkan\<rparr>"
    and "packed_WeightSizes c = [3, 2]" and "packed_BiasDefined c"
  shows "run_addmm_context sample_env (cpu_float_tensor [1, 3] xs) alpha beta c False os oz s
   = Inr (new_vTensor [1, 2] kFloat,
          submit_compute_job
            \<lparr>shader = VK_KERNEL_addmm, global_work_group_size = (1, 1, 1),
             local_work_group_size = (8, 8, 1),
             arguments =
               [new_vTensor [1, 2] kFloat,
                (cpu_float_tensor [1, 3] xs)
                  \<lparr>device := Vulkan, gpu_memory_layout := TENSOR_WIDTH_PACKED\<rparr>,
                (cpu_float_tensor [3, 2] ws)
                  \<lparr>device := Vulkan, gpu_memory_layout := TENSOR_HEIGHT_PACKED\<rparr>,
                (cpu_float_tensor [2] bs)\<lparr>device := Vulkan\<rparr>],
             params_buffer = Block_addmm (2, 1, 1) 3 (2, 1, 1) (alpha, beta)\<rparr> s)"
  apply (rule iffD2[OF run_addmm_context_Inr_iff])
  apply (rule exI[of _ "(cpu_float_tensor [1, 3] xs)
           \<lparr>device := Vulkan, gpu_memory_layout := TENSOR_WIDTH_PACKED\<rparr>"])
  apply (rule exI[of _ "new_vTensor [1, 2] kFloat"])
  apply (rule exI[of _ VK_KERNEL_addmm])
  apply (rule exI[of _ "Block_addmm (2, 1, 1) 3 (2, 1, 1) (alpha, beta)"])
  apply (rule exI[of _ "(1, 1, 1)"])
  apply (simp add: assms cpu_float_tensor_def sample_env_def
      new_vTensor_def tensor_defs layout_defs pack_inputs_using_height_packing_def
      convert_image_channels_packed_to_width_packed_def usable_def
      addmm_shader_and_params_def addmm_global_size_def div_up_def
      safe_downcast_uint32_def bind_result_simps)
  done


lemma submit_compute_job_inj:
  assumes "submit_compute_job j s = submit_compute_job j' s"
  shows "j = j'"
proof -
  from assms have "submitted (submit_compute_job j s) = submitted (submit_compute_job j' s)"
    by simp
  then show ?thesis by (simp add: submit_compute_job_def)
qed

text \<open>
  Claim C7. A prepacked context is an object behind a pointer, one of \<open>prepacked\<close>.
  A call of \<open>run_linear_context_ptr\<close> that returns (or of \<open>run_addmm_context_ptr\<close>
  with any arguments) leaves every prepacked context as it was: it adds one job to the
  queue and changes nothing else. A second call with the same pointer and the same input,
  made in the state that the first call left, returns the same image and submits the same
  job again: the same shader and parameter block, bound to the same images with the same
  content, among them the packed weight of the context and, when the bias is defined, its
  packed bias. What a call returns and submits depends on the object through its packed
  weight, packed bias, weight sizes and bias-defined flag only: in every state whose
  object at the pointer agrees on these four, the call returns the same image and submits
  the same job. What the device writes into the output image when it runs the job is
  outside \<^verbatim>\<open>Mm.cpp\<close>; an equal job on equal images is what the file contributes
  to an equal output.
\<close>

theorem run_linear_context_twice:
  assumes "p < length (prepacked s)"
  shows
   "(run_linear_context_ptr env input p s = Inr (y, s1) \<longrightarrow>
       prepacked s1 = prepacked s \<and>
       (\<exists>j. s1 = submit_compute_job j s \<and>
            run_linear_context_ptr env input p s1 = Inr (y, submit_compute_job j s1) \<and>
            prepacked (submit_compute_job j s1) = prepacked s)) \<and>
    (run_addmm_context_ptr env input alpha beta p quantized os oz s = Inr (y, s1) \<longrightarrow>
       prepacked s1 = prepacked s \<and>
       (\<exists>j. s1 = submit_compute_job j s \<and>
            run_addmm_context_ptr env input alpha beta p quantized os oz s1
              = Inr (y, submit_compute_job j s1) \<and>
            prepacked (submit_compute_job j s1) = prepacked s \<and>
            arguments j ! 2 = packed_Weight (prepacked s ! p) \<and>
            (packed_BiasDefined (prepacked s ! p) \<longrightarrow>
               arguments j ! 3 = packed_Bias (prepacked s ! p)) \<and>
            (\<forall>t. p < length (prepacked t) \<and>
                 packed_Weight (prepacked t ! p) = packed_Weight (prepacked s ! p) \<and>
                 packed_Bias (prepacked t ! p) = packed_Bias (prepacked s ! p) \<and>
                 packed_WeightSizes (prepacked t ! p) = packed_WeightSizes (prepacked s ! p) \<and>
                 packed_BiasDefined (prepacked t ! p) = packed_BiasDefined (prepacked s ! p) \<longrightarrow>
                 run_addmm_context_ptr env input alpha beta p quantized os oz t
                   = Inr (y, submit_compute_job j t))))"
proof -
  have main: "prepacked s1 = prepacked s \<and>
       (\<exists>j. s1 = submit_compute_job j s \<and>
            run_addmm_context_ptr env input alpha beta p quantized os oz s1
              = Inr (y, submit_compute_job j s1) \<and>
            prepacked (submit_compute_job j s1) = prepacked s \<and>
            arguments j ! 2 = packed_Weight (prepacked s ! p) \<and>
            (packed_BiasDefined (prepacked s ! p) \<longrightarrow>
               arguments j ! 3 = packed_Bias (prepacked s ! p)) \<and>
            (\<forall>t. p < length (prepacked t) \<and>
                 packed_Weight (prepacked t ! p) = packed_Weight (prepacked s ! p) \<and>
                 packed_Bias (prepacked t ! p) = packed_Bias (prepacked s ! p) \<and>
                 packed_WeightSizes (prepacked t ! p) = packed_WeightSizes (prepacked s ! p) \<and>
                 packed_BiasDefined (prepacked t ! p) = packed_BiasDefined (prepacked s ! p) \<longrightarrow>
                 run_addmm_context_ptr env input alpha beta p quantized os oz t
                   = Inr (y, submit_compute_job j t)))"
    if first: "run_addmm_context_ptr env input alpha beta p quantized os oz s = Inr (y, s1)"
    for alpha beta quantized os oz
  proof -
    let ?c = "prepacked s ! p"
    let ?j = "last (submitted s1)"
    from first
    have run: "run_addmm_context env input alpha beta ?c quantized os oz s = Inr (y, s1)"
      by (simp add: run_addmm_context_ptr_def)
    note again = run_addmm_context_again[OF run]
    from again[of s] have s1: "s1 = submit_compute_job ?j s" by simp
    have frame: "prepacked s1 = prepacked s"
      using arg_cong[OF s1, of prepacked] by (simp add: prepacked_submit)
    have reads: "run_addmm_context_ptr env input alpha beta p quantized os oz t
                       = Inr (y, submit_compute_job ?j t)"
      if "packed_Weight (prepacked t ! p) = packed_Weight ?c"
        "packed_Bias (prepacked t ! p) = packed_Bias ?c"
        "packed_WeightSizes (prepacked t ! p) = packed_WeightSizes ?c"
        "packed_BiasDefined (prepacked t ! p) = packed_BiasDefined ?c" for t
      unfolding run_addmm_context_ptr_def run_addmm_context_reads[OF that]
      using again[of t] by simp
    have second: "run_addmm_context_ptr env input alpha beta p quantized os oz s1
                  = Inr (y, submit_compute_job ?j s1)"
      by (rule reads) (simp_all add: frame)
    from run_addmm_context_job[OF run]
    have job: "arguments ?j ! 2 = packed_Weight ?c"
      "packed_BiasDefined ?c \<longrightarrow> arguments ?j ! 3 = packed_Bias ?c" by simp_all
    have "\<exists>j. s1 = submit_compute_job j s \<and>
              run_addmm_context_ptr env input alpha beta p quantized os oz s1
                = Inr (y, submit_compute_job j s1) \<and>
              prepacked (submit_compute_job j s1) = prepacked s \<and>
              arguments j ! 2 = packed_Weight (prepacked s ! p) \<and>
              (packed_BiasDefined (prepacked s ! p) \<longrightarrow>
                 arguments j ! 3 = packed_Bias (prepacked s ! p)) \<and>
              (\<forall>t. p < length (prepacked t) \<and>
                   packed_Weight (prepacked t ! p) = packed_Weight (prepacked s ! p) \<and>
                   packed_Bias (prepacked t ! p) = packed_Bias (prepacked s ! p) \<and>
                   packed_WeightSizes (prepacked t ! p) = packed_WeightSizes (prepacked s ! p) \<and>
                   packed_BiasDefined (prepacked t ! p) = packed_BiasDefined (prepacked s ! p) \<longrightarrow>
                   run_addmm_context_ptr env input alpha beta p quantized os oz t
                     = Inr (y, submit_compute_job j t))"
      apply (rule exI[of _ ?j])
      using s1 second job reads by (simp add: prepacked_submit frame)
    with frame show ?thesis by simp
  qed
  show ?thesis
  proof (intro conjI impI)
    assume "run_linear_context_ptr env input p s = Inr (y, s1)"
    then have "run_addmm_context_ptr env input 1 1 p False 0 0 s = Inr (y, s1)"
      by (simp add: run_linear_context_ptr_def)
    from main[OF this]
    show "prepacked s1 = prepacked s"
      and "\<exists>j. s1 = submit_compute_job j s \<and>
            run_linear_context_ptr env input p s1 = Inr (y, submit_compute_job j s1) \<and>
            prepacked (submit_compute_job j s1) = prepacked s"
      unfolding run_linear_context_ptr_def by blast+
  next
    assume "run_addmm_context_ptr env input alpha beta p quantized os oz s = Inr (y, s1)"
    from main[OF this]
    show "prepacked s1 = prepacked s"
      and "\<exists>j. s1 = submit_compute_job j s \<and>
            run_addmm_context_ptr env input alpha beta p quantized os oz s1
              = Inr (y, submit_compute_job j s1) \<and>
            prepacked (submit_compute_job j s1) = prepacked s \<and>
            arguments j ! 2 = packed_Weight (prepacked s ! p) \<and>
            (packed_BiasDefined (prepacked s ! p) \<longrightarrow>
               arguments j ! 3 = packed_Bias (prepacked s ! p)) \<and>
            (\<forall>t. p < length (prepacked t) \<and>
                 packed_Weight (prepacked t ! p) = packed_Weight (prepacked s ! p) \<and>
                 packed_Bias (prepacked t ! p) = packed_Bias (prepacked s ! p) \<and>
                 packed_WeightSizes (prepacked t ! p) = packed_WeightSizes (prepacked s ! p) \<and>
                 packed_BiasDefined (prepacked t ! p) = packed_BiasDefined (prepacked s ! p) \<longrightarrow>
                 run_addmm_context_ptr env input alpha beta p quantized os oz t
                   = Inr (y, submit_compute_job j t))"
      by blast+
  qed
qed

theorem run_linear_context_twice_witness:
  "(\<exists>sA y sB sC.
      create_linear_context_ptr sample_env (cpu_float_tensor [3, 2] [1, 2, 3, 4, 5, 6]) nullopt
        empty_queue = Inr (0, sA) \<and>
      run_linear_context_ptr sample_env (cpu_float_tensor [1, 3] [7, 8, 9]) 0 sA = Inr (y, sB) \<and>
      run_linear_context_ptr sample_env (cpu_float_tensor [1, 3] [7, 8, 9]) 0 sB = Inr (y, sC) \<and>
      length (prepacked sA) = 1 \<and> prepacked sB = prepacked sA \<and> prepacked sC = prepacked sA \<and>
      sizes y = [1, 2] \<and>
      map (\<lambda>j. (shader j, map elems (arguments j))) (submitted sC)
        = [(VK_KERNEL_mm, [[], [7, 8, 9], [1, 2, 3, 4, 5, 6]]),
           (VK_KERNEL_mm, [[], [7, 8, 9], [1, 2, 3, 4, 5, 6]])]) \<and>
   (\<exists>sA y sB sC sD.
      create_linear_context_ptr sample_env (cpu_float_tensor [3, 2] [1, 2, 3, 4, 5, 6])
        (some_Tensor (cpu_float_tensor [2] [10, 11])) empty_queue = Inr (0, sA) \<and>
      run_addmm_context_ptr sample_env (cpu_float_tensor [1, 3] [7, 8, 9]) 2 3 0 False 0 0 sA
        = Inr (y, sB) \<and>
      run_addmm_context_ptr sample_env (cpu_float_tensor [1, 3] [7, 8, 9]) 2 3 0 False 0 0 sB
        = Inr (y, sC) \<and>
      prepacked sB = prepacked sA \<and> prepacked sC = prepacked sA \<and>
      map (\<lambda>j. (shader j, map elems (arguments j))) (submitted sC)
        = [(VK_KERNEL_addmm, [[], [7, 8, 9], [1, 2, 3, 4, 5, 6], [10, 11]]),
           (VK_KERNEL_addmm, [[], [7, 8, 9], [1, 2, 3, 4, 5, 6], [10, 11]])] \<and>
      run_addmm_context_ptr sample_env (cpu_float_tensor [1, 3] [7, 8, 9]) 2 3 0 False 0 0
        (sA\<lparr>prepacked := map (\<lambda>c. c\<lparr>unpacked := None\<rparr>) (prepacked sA)\<rparr>) = Inr (y, sD) \<and>
      submitted sD = submitted sB)"
proof -
  let ?w = "cpu_float_tensor [3, 2] [1, 2, 3, 4, 5, 6]"
  let ?x = "cpu_float_tensor [1, 3] [7, 8, 9]"
  let ?b = "cpu_float_tensor [2] [10, 11]"
  let ?pw = "?w\<lparr>device := Vulkan, gpu_memory_layout := TENSOR_HEIGHT_PACKED\<rparr>"
  let ?px = "?x\<lparr>device := Vulkan, gpu_memory_layout := TENSOR_WIDTH_PACKED\<rparr>"
  let ?y = "new_vTensor [1, 2] kFloat"
  have first: "\<exists>sA y sB sC.
      create_linear_context_ptr sample_env ?w nullopt empty_queue = Inr (0, sA) \<and>
      run_linear_context_ptr sample_env ?x 0 sA = Inr (y, sB) \<and>
      run_linear_context_ptr sample_env ?x 0 sB = Inr (y, sC) \<and>
      length (prepacked sA) = 1 \<and> prepacked sB = prepacked sA \<and> prepacked sC = prepacked sA \<and>
      sizes y = [1, 2] \<and>
      map (\<lambda>j. (shader j, map elems (arguments j))) (submitted sC)
        = [(VK_KERNEL_mm, [[], [7, 8, 9], [1, 2, 3, 4, 5, 6]]),
           (VK_KERNEL_mm, [[], [7, 8, 9], [1, 2, 3, 4, 5, 6]])]"
  proof -
    let ?c = "\<lparr>packed_Weight = ?pw,
          packed_Bias = (new_vTensor [1] kFloat)\<lparr>elems := [0]\<rparr>,
          packed_WeightSizes = [3, 2],
          packed_BiasDefined = False,
          unpacked = Some (?w, nullopt)\<rparr>"
    let ?sA = "\<lparr>submitted = [], prepacked = [?c]\<rparr>"
    let ?J = "\<lparr>shader = VK_KERNEL_mm, global_work_group_size = (1, 1, 1),
             local_work_group_size = (8, 8, 1),
             arguments = [?y, ?px, ?pw],
             params_buffer = Block_mm (2, 1, 1) 3\<rparr>"
    have cr: "create_linear_context_ptr sample_env ?w nullopt empty_queue = Inr (0, ?sA)"
      unfolding create_linear_context_ptr_def create_linear_context_def created_context
        bind_result_simps
      by (simp add: empty_queue_def)
    have r1: "run_linear_context_ptr sample_env ?x 0 ?sA = Inr (?y, submit_compute_job ?J ?sA)"
      unfolding run_linear_context_ptr_def run_addmm_context_ptr_def
      by (rule created_run) simp_all
    have len: "0 < length (prepacked ?sA)" by simp
    from run_linear_context_twice[OF len, where env = sample_env and input = ?x
        and y = ?y and ?s1.0 = "submit_compute_job ?J ?sA"] r1
    obtain j where
      f: "prepacked (submit_compute_job ?J ?sA) = prepacked ?sA"
      and j: "submit_compute_job ?J ?sA = submit_compute_job j ?sA"
      and r2: "run_linear_context_ptr sample_env ?x 0 (submit_compute_job ?J ?sA)
             = Inr (?y, submit_compute_job j (submit_compute_job ?J ?sA))"
      and f2: "prepacked (submit_compute_job j (submit_compute_job ?J ?sA)) = prepacked ?sA"
      by blast
    from submit_compute_job_inj[OF j] have jj: "j = ?J" by simp
    have content: "map (\<lambda>j. (shader j, map elems (arguments j)))
        (submitted (submit_compute_job ?J (submit_compute_job ?J ?sA)))
        = [(VK_KERNEL_mm, [[], [7, 8, 9], [1, 2, 3, 4, 5, 6]]),
           (VK_KERNEL_mm, [[], [7, 8, 9], [1, 2, 3, 4, 5, 6]])]"
      by (simp add: submit_compute_job_def new_vTensor_def cpu_float_tensor_def)
    have sy: "sizes ?y = [1, 2]" by (simp add: new_vTensor_def)
    show ?thesis
      apply (rule exI[of _ ?sA])
      apply (rule exI[of _ ?y])
      apply (rule exI[of _ "submit_compute_job ?J ?sA"])
      apply (rule exI[of _ "submit_compute_job ?J (submit_compute_job ?J ?sA)"])
      using cr r1 r2 f f2 content sy unfolding jj by simp
  qed
  have second: "\<exists>sA y sB sC sD.
      create_linear_context_ptr sample_env ?w (some_Tensor ?b) empty_queue = Inr (0, sA) \<and>
      run_addmm_context_ptr sample_env ?x 2 3 0 False 0 0 sA = Inr (y, sB) \<and>
      run_addmm_context_ptr sample_env ?x 2 3 0 False 0 0 sB = Inr (y, sC) \<and>
      prepacked sB = prepacked sA \<and> prepacked sC = prepacked sA \<and>
      map (\<lambda>j. (shader j, map elems (arguments j))) (submitted sC)
        = [(VK_KERNEL_addmm, [[], [7, 8, 9], [1, 2, 3, 4, 5, 6], [10, 11]]),
           (VK_KERNEL_addmm, [[], [7, 8, 9], [1, 2, 3, 4, 5, 6], [10, 11]])] \<and>
      run_addmm_context_ptr sample_env ?x 2 3 0 False 0 0
        (sA\<lparr>prepacked := map (\<lambda>c. c\<lparr>unpacked := None\<rparr>) (prepacked sA)\<rparr>) = Inr (y, sD) \<and>
      submitted sD = submitted sB"
  proof -
    let ?c = "\<lparr>packed_Weight = ?pw,
          packed_Bias = ?b\<lparr>device := Vulkan\<rparr>,
          packed_WeightSizes = [3, 2],
          packed_BiasDefined = True,
          unpacked = Some (?w, some_Tensor ?b)\<rparr>"
    let ?sA = "\<lparr>submitted = [], prepacked = [?c]\<rparr>"
    let ?t = "?sA\<lparr>prepacked := map (\<lambda>c. c\<lparr>unpacked := None\<rparr>) (prepacked ?sA)\<rparr>"
    let ?J = "\<lparr>shader = VK_KERNEL_addmm, global_work_group_size = (1, 1, 1),
             local_work_group_size = (8, 8, 1),
             arguments = [?y, ?px, ?pw, ?b\<lparr>device := Vulkan\<rparr>],
             params_buffer = Block_addmm (2, 1, 1) 3 (2, 1, 1) (2, 3)\<rparr>"
    have cr: "create_linear_context_ptr sample_env ?w (some_Tensor ?b) empty_queue = Inr (0, ?sA)"
      unfolding create_linear_context_ptr_def create_linear_context_def created_context_bias
        bind_result_simps
      by (simp add: empty_queue_def)
    have r1: "run_addmm_context_ptr sample_env ?x 2 3 0 False 0 0 ?sA
        = Inr (?y, submit_compute_job ?J ?sA)"
      unfolding run_addmm_context_ptr_def
      by (rule created_run_bias) simp_all
    have len: "0 < length (prepacked ?sA)" by simp
    have same: "0 < length (prepacked ?t) \<and>
         packed_Weight (prepacked ?t ! 0) = packed_Weight (prepacked ?sA ! 0) \<and>
         packed_Bias (prepacked ?t ! 0) = packed_Bias (prepacked ?sA ! 0) \<and>
         packed_WeightSizes (prepacked ?t ! 0) = packed_WeightSizes (prepacked ?sA ! 0) \<and>
         packed_BiasDefined (prepacked ?t ! 0) = packed_BiasDefined (prepacked ?sA ! 0)"
      by simp
    from run_linear_context_twice[OF len, where env = sample_env and input = ?x
        and alpha = 2 and beta = 3 and quantized = False and os = 0 and oz = 0
        and y = ?y and ?s1.0 = "submit_compute_job ?J ?sA"] r1
    obtain j where
      f: "prepacked (submit_compute_job ?J ?sA) = prepacked ?sA"
      and j: "submit_compute_job ?J ?sA = submit_compute_job j ?sA"
      and r2: "run_addmm_context_ptr sample_env ?x 2 3 0 False 0 0 (submit_compute_job ?J ?sA)
             = Inr (?y, submit_compute_job j (submit_compute_job ?J ?sA))"
      and f2: "prepacked (submit_compute_job j (submit_compute_job ?J ?sA)) = prepacked ?sA"
      and rd: "\<forall>t. 0 < length (prepacked t) \<and>
                 packed_Weight (prepacked t ! 0) = packed_Weight (prepacked ?sA ! 0) \<and>
                 packed_Bias (prepacked t ! 0) = packed_Bias (prepacked ?sA ! 0) \<and>
                 packed_WeightSizes (prepacked t ! 0) = packed_WeightSizes (prepacked ?sA ! 0) \<and>
                 packed_BiasDefined (prepacked t ! 0) = packed_BiasDefined (prepacked ?sA ! 0) \<longrightarrow>
                 run_addmm_context_ptr sample_env ?x 2 3 0 False 0 0 t
                   = Inr (?y, submit_compute_job j t)"
      by blast
    from submit_compute_job_inj[OF j] have jj: "j = ?J" by simp
    from rd same have r3: "run_addmm_context_ptr sample_env ?x 2 3 0 False 0 0 ?t
                   = Inr (?y, submit_compute_job j ?t)" by blast
    have content: "map (\<lambda>j. (shader j, map elems (arguments j)))
        (submitted (submit_compute_job ?J (submit_compute_job ?J ?sA)))
        = [(VK_KERNEL_addmm, [[], [7, 8, 9], [1, 2, 3, 4, 5, 6], [10, 11]]),
           (VK_KERNEL_addmm, [[], [7, 8, 9], [1, 2, 3, 4, 5, 6], [10, 11]])]"
      by (simp add: submit_compute_job_def new_vTensor_def cpu_float_tensor_def)
    have sub: "submitted (submit_compute_job ?J ?t) = submitted (submit_compute_job ?J ?sA)"
      by (simp add: submit_compute_job_def)
    show ?thesis
      apply (rule exI[of _ ?sA])
      apply (rule exI[of _ ?y])
      apply (rule exI[of _ "submit_compute_job ?J ?sA"])
      apply (rule exI[of _ "submit_compute_job ?J (submit_compute_job ?J ?sA)"])
      apply (rule exI[of _ "submit_compute_job ?J ?t"])
      using cr r1 r2 r3 f f2 content sub unfolding jj by simp
  qed
  from first second show ?thesis by (rule conjI)
qed

subsection \<open>Why an unbatched call is rejected\<close>

lemma pack_inputs_using_height_packing_Inl:
  assumes "pack_inputs_using_height_packing t = Inl e" and "is_vulkan t"
  shows "e = InputPackingQuantized \<or> e = InputPackingNot2D \<or> e = InputNotWidthPacked"
  using assms
  by (auto simp: pack_inputs_using_height_packing_def Let_def tensor_defs split: if_splits)

lemma safe_downcast_Inl:
  "safe_downcast_uint32 n = Inl e \<Longrightarrow> e = CastOutOfRange"
  "safe_downcast_int32 i = Inl e \<Longrightarrow> e = CastOutOfRange"
  "safe_downcast_float r = Inl e \<Longrightarrow> e = CastOutOfRange"
  by (auto simp: safe_downcast_uint32_def safe_downcast_int32_def safe_downcast_float_def
      split: if_splits)

lemma quantized_scales_block_Inl:
  "quantized_scales_block v w os oz = Inl e \<Longrightarrow> e = CastOutOfRange"
  unfolding quantized_scales_block_def
  by (auto simp: bind_result_Inl dest: safe_downcast_Inl)

lemma addmm_shader_and_params_Inl:
  "addmm_shader_and_params env bd q x vo vi w b alpha beta os oz = Inl e \<Longrightarrow> e = CastOutOfRange"
  unfolding addmm_shader_and_params_def
  by (auto simp: bind_result_Inl split: if_splits prod.splits
      dest: safe_downcast_Inl quantized_scales_block_Inl)

lemma addmm_global_size_Inl:
  "addmm_global_size v = Inl e \<Longrightarrow> e = CastOutOfRange"
  unfolding addmm_global_size_def
  by (auto simp: bind_result_Inl dest: safe_downcast_Inl)

lemma reshape_Inl: "reshape t shape = Inl e \<Longrightarrow> e = ReshapeInvalid"
  by (auto simp: reshape_def split: if_splits)

lemma usable_flattened:
  "usable (x\<lparr>sizes := [d, last (sizes x)], device := Vulkan\<rparr>) ws False
     = input_matches_weight x ws"
  by (simp add: usable_def input_matches_weight_def Let_def tensor_defs layout_defs)

lemma run_addmm_context_Inl:
  assumes "run_addmm_context env input_arg alpha beta c quantized os oz s = Inl e"
  shows "e \<noteq> InputNotOnVulkan \<and>
         (e = LinearNotUsable \<longrightarrow> \<not> input_matches_weight input_arg (packed_WeightSizes c))"
proof (cases "2 \<le> ndimension input_arg")
  case False
  with assms have "e = InputDimBelow2"
    unfolding run_addmm_context_def input_arg_2d_result
    by (simp add: bind_result_simps)
  then show ?thesis by simp
next
  case True
  let ?input = "input_arg\<lparr>sizes := [prod_list (butlast (sizes input_arg)), last (sizes input_arg)],
                           device := Vulkan\<rparr>"
  have v: "is_vulkan ?input" by (simp add: is_vulkan_def)
  show ?thesis
  proof (cases "pack_inputs_using_height_packing ?input")
    case (Inl e')
    with assms True have "e = e'"
      unfolding run_addmm_context_def input_arg_2d_result vulkan_if_needed Let_def
      by (simp add: bind_result_simps)
    with pack_inputs_using_height_packing_Inl[OF Inl v] show ?thesis by auto
  next
    case (Inr v_input)
    show ?thesis
    proof (cases "usable ?input (packed_WeightSizes c) False")
      case False
      with assms True Inr have "e = LinearNotUsable"
        unfolding run_addmm_context_def input_arg_2d_result vulkan_if_needed Let_def
        by (simp add: bind_result_simps)
      with False show ?thesis unfolding usable_flattened by simp
    next
      case us: True
      from assms True Inr us have "e \<noteq> InputNotOnVulkan \<and> e \<noteq> LinearNotUsable"
        unfolding run_addmm_context_def input_arg_2d_result vulkan_if_needed Let_def
        by (auto simp: bind_result_simps bind_result_Inl split: if_splits prod.splits
            dest: addmm_shader_and_params_Inl addmm_global_size_Inl reshape_Inl)
      then show ?thesis by simp
    qed
  qed
qed

lemma available_unbatched_Inr: "\<exists>ok. available env weight bias False = Inr ok"
  by (auto simp: available_def Let_def)

lemma pack_weights_Inl:
  "pack_weights w ub = Inl e \<Longrightarrow>
     e = WeightPackingQuantized \<or> e = WeightPackingNot2D \<or> e = WeightNotOnVulkan \<or>
     e = WeightNotHeightPacked \<or> e = BatchWeightNot3D"
  by (auto simp: pack_weights_def pack_weights_using_height_packing_def Let_def
      split: if_splits)

lemma pack_biases_Inl: "pack_biases w b ub = Inl e \<Longrightarrow> e = UndefinedTensorAccess"
  by (auto simp: pack_biases_def Let_def split: optional_Tensor.splits if_splits prod.splits)

lemma LinearPackedContext_new_unbatched_Inl:
  assumes "LinearPackedContext_new env weight bias False = Inl e"
  shows "e \<noteq> InputNotOnVulkan \<and> e \<noteq> LinearNotUsable"
proof -
  obtain ok where a: "available env weight bias False = Inr ok"
    using available_unbatched_Inr by blast
  from assms show ?thesis
    unfolding LinearPackedContext_new_def a bind_result_simps
    by (auto simp: bind_result_Inl split: if_splits dest: pack_weights_Inl pack_biases_Inl)
qed

lemma LinearPackedContext_new_WeightSizes:
  "LinearPackedContext_new env weight bias ub = Inr c \<Longrightarrow> packed_WeightSizes c = sizes weight"
  by (auto simp: LinearPackedContext_new_def bind_result_Inr split: if_splits)

text \<open>
  Claim C10. \<^verbatim>\<open>run_addmm_context\<close> moves the flattened input to the Vulkan device
  before it packs and checks it. So whatever device the input of \<open>mm\<close>, \<open>addmm\<close>,
  \<open>run_linear_context\<close> or \<open>run_qlinear_context\<close> is on, the call never raises the
  "Input must be on Vulkan device" error, and when it raises the "not usable" error the
  input fails one of the other tests of \<open>usable\<close>: its dtype, its width against the
  height of the weight, or its gradient flag (the rank is 2 by then).
\<close>

theorem host_input_not_rejected_for_placement:
  "(run_linear_context env input c s = Inl e \<longrightarrow>
      e \<noteq> InputNotOnVulkan \<and>
      (e = LinearNotUsable \<longrightarrow> \<not> input_matches_weight input (packed_WeightSizes c))) \<and>
   (run_qlinear_context env input os oz c s = Inl e \<longrightarrow>
      e \<noteq> InputNotOnVulkan \<and>
      (e = LinearNotUsable \<longrightarrow> \<not> input_matches_weight input (packed_WeightSizes c))) \<and>
   (mm env input weight s = Inl e \<longrightarrow>
      e \<noteq> InputNotOnVulkan \<and>
      (e = LinearNotUsable \<longrightarrow> \<not> input_matches_weight input (sizes weight))) \<and>
   (addmm env bias input weight beta alpha s = Inl e \<longrightarrow>
      e \<noteq> InputNotOnVulkan \<and>
      (e = LinearNotUsable \<longrightarrow> \<not> input_matches_weight input (sizes weight)))"
proof (intro conjI impI)
  assume "run_linear_context env input c s = Inl e"
  from run_addmm_context_Inl[OF this[unfolded run_linear_context_def]]
  show "e \<noteq> InputNotOnVulkan"
    and "e = LinearNotUsable \<Longrightarrow> \<not> input_matches_weight input (packed_WeightSizes c)"
    by blast+
next
  assume "run_qlinear_context env input os oz c s = Inl e"
  from run_addmm_context_Inl[OF this[unfolded run_qlinear_context_def]]
  show "e \<noteq> InputNotOnVulkan"
    and "e = LinearNotUsable \<Longrightarrow> \<not> input_matches_weight input (packed_WeightSizes c)"
    by blast+
next
  assume m: "mm env input weight s = Inl e"
  have "e \<noteq> InputNotOnVulkan \<and>
        (e = LinearNotUsable \<longrightarrow> \<not> input_matches_weight input (sizes weight))"
  proof (cases "LinearPackedContext_new env weight nullopt False")
    case (Inl e')
    with m have "e = e'" by (simp add: mm_def bind_result_simps)
    with LinearPackedContext_new_unbatched_Inl[OF Inl] show ?thesis by simp
  next
    case (Inr c)
    with m have "run_addmm_context env input 1 1 c False 0 0 s = Inl e"
      by (simp add: mm_def bind_result_simps)
    from run_addmm_context_Inl[OF this] LinearPackedContext_new_WeightSizes[OF Inr]
    show ?thesis by simp
  qed
  then show "e \<noteq> InputNotOnVulkan"
    and "e = LinearNotUsable \<Longrightarrow> \<not> input_matches_weight input (sizes weight)"
    by blast+
next
  assume m: "addmm env bias input weight beta alpha s = Inl e"
  have "e \<noteq> InputNotOnVulkan \<and>
        (e = LinearNotUsable \<longrightarrow> \<not> input_matches_weight input (sizes weight))"
  proof (cases "LinearPackedContext_new env weight (some_Tensor bias) False")
    case (Inl e')
    with m have "e = e'" by (simp add: addmm_def bind_result_simps)
    with LinearPackedContext_new_unbatched_Inl[OF Inl] show ?thesis by simp
  next
    case (Inr c)
    with m have "run_addmm_context env input alpha beta c False 0 0 s = Inl e"
      by (simp add: addmm_def bind_result_simps)
    from run_addmm_context_Inl[OF this] LinearPackedContext_new_WeightSizes[OF Inr]
    show ?thesis by simp
  qed
  then show "e \<noteq> InputNotOnVulkan"
    and "e = LinearNotUsable \<Longrightarrow> \<not> input_matches_weight input (sizes weight)"
    by blast+
qed

lemma sample_mm_context:
  "LinearPackedContext_new sample_env (cpu_float_tensor [3, 2] [1, 1, 1, 1, 1, 1]) nullopt False
     = Inr sample_linear_context"
proof -
  have e: "sample_env\<lparr>releaseWeightsWhenPrepacking := False\<rparr> = sample_env"
    by (simp add: sample_env_def)
  show ?thesis
    using sample_context[of False] unfolding e sample_linear_context_def by simp
qed

lemma sample_run_rejected:
  assumes "packed_WeightSizes c = [3, 2]"
  shows "run_addmm_context env (cpu_float_tensor [7, 4] []) alpha beta c quantized os oz s
           = Inl LinearNotUsable"
  using assms
  by (simp add: run_addmm_context_def Let_def vulkan_def cpu_float_tensor_def
      tensor_defs layout_defs pack_inputs_using_height_packing_def
      convert_image_channels_packed_to_width_packed_def usable_def bind_result_simps)

lemma sample_addmm_context:
  "\<exists>c. LinearPackedContext_new sample_env (cpu_float_tensor [3, 2] [1, 1, 1, 1, 1, 1])
          (some_Tensor (cpu_float_tensor [2] [1, 1])) False = Inr c"
proof -
  have a: "available sample_env (cpu_float_tensor [3, 2] [1, 1, 1, 1, 1, 1])
             (some_Tensor (cpu_float_tensor [2] [1, 1])) False = Inr True"
    by (simp add: available_def Let_def sample_env_def cpu_float_tensor_def layout_defs
        tensor_defs)
  have b: "pack_biases (cpu_float_tensor [3, 2] [1, 1, 1, 1, 1, 1])
             (some_Tensor (cpu_float_tensor [2] [1, 1])) False
           = Inr (vulkan (cpu_float_tensor [2] [1, 1]))"
    by (simp add: pack_biases_def cpu_float_tensor_def is_vulkan_def)
  show ?thesis
    unfolding LinearPackedContext_new_def a b sample_pack_weights bind_result_simps
    by simp
qed

theorem host_input_not_rejected_for_placement_witness:
  "device (cpu_float_tensor [7, 4] []) = CPU \<and>
   last (sizes (cpu_float_tensor [7, 4] [])) = 4 \<and>
   sizes (cpu_float_tensor [3, 2] [1, 1, 1, 1, 1, 1]) ! Parameter_height = 3 \<and>
   run_linear_context sample_env (cpu_float_tensor [7, 4] []) sample_linear_context
     empty_queue = Inl LinearNotUsable \<and>
   run_qlinear_context sample_env (cpu_float_tensor [7, 4] []) 0 0 sample_linear_context
     empty_queue = Inl LinearNotUsable \<and>
   mm sample_env (cpu_float_tensor [7, 4] []) (cpu_float_tensor [3, 2] [1, 1, 1, 1, 1, 1])
     empty_queue = Inl LinearNotUsable \<and>
   addmm sample_env (cpu_float_tensor [2] [1, 1]) (cpu_float_tensor [7, 4] [])
     (cpu_float_tensor [3, 2] [1, 1, 1, 1, 1, 1]) 1 1 empty_queue = Inl LinearNotUsable \<and>
   \<not> input_matches_weight (cpu_float_tensor [7, 4] [])
       (sizes (cpu_float_tensor [3, 2] [1, 1, 1, 1, 1, 1])) \<and>
   \<not> input_matches_weight (cpu_float_tensor [7, 4] [])
       (packed_WeightSizes sample_linear_context) \<and>
   device (cpu_float_tensor [7, 3] []) = CPU \<and>
   (\<exists>y s'. mm sample_env (cpu_float_tensor [7, 3] [])
              (cpu_float_tensor [3, 2] [1, 1, 1, 1, 1, 1]) empty_queue = Inr (y, s'))"
proof -
  let ?w = "cpu_float_tensor [3, 2] [1, 1, 1, 1, 1, 1]"
  let ?x = "cpu_float_tensor [7, 4] []"
  have ws: "packed_WeightSizes sample_linear_context = [3, 2]"
    by (simp add: sample_linear_context_def)
  have lin: "run_linear_context sample_env ?x sample_linear_context empty_queue
      = Inl LinearNotUsable"
    unfolding run_linear_context_def by (rule sample_run_rejected[OF ws])
  have qlin: "run_qlinear_context sample_env ?x 0 0 sample_linear_context empty_queue
      = Inl LinearNotUsable"
    unfolding run_qlinear_context_def by (rule sample_run_rejected[OF ws])
  have bad: "mm sample_env ?x ?w empty_queue = Inl LinearNotUsable"
    unfolding mm_def sample_mm_context bind_result_simps by (rule sample_run_rejected[OF ws])
  obtain c where c: "LinearPackedContext_new sample_env ?w
      (some_Tensor (cpu_float_tensor [2] [1, 1])) False = Inr c"
    using sample_addmm_context by blast
  have "packed_WeightSizes c = [3, 2]"
    using LinearPackedContext_new_WeightSizes[OF c] by (simp add: cpu_float_tensor_def)
  then have badd: "addmm sample_env (cpu_float_tensor [2] [1, 1]) ?x ?w 1 1 empty_queue
      = Inl LinearNotUsable"
    unfolding addmm_def c bind_result_simps by (rule sample_run_rejected)
  have good: "\<exists>y s'. mm sample_env (cpu_float_tensor [7, 3] []) ?w empty_queue = Inr (y, s')"
    unfolding mm_def sample_mm_context bind_result_simps using sample_run by blast
  from host_input_not_rejected_for_placement[where env = sample_env
      and input = ?x and weight = ?w and s = empty_queue and c = sample_linear_context
      and os = 0 and oz = 0 and bias = "cpu_float_tensor [2] [1, 1]" and beta = 1
      and alpha = 1 and e = LinearNotUsable] lin qlin bad badd
  have "\<not> input_matches_weight ?x (sizes ?w)"
    "\<not> input_matches_weight ?x (packed_WeightSizes sample_linear_context)" by blast+
  with lin qlin bad badd good show ?thesis
    by (simp add: cpu_float_tensor_def layout_defs)
qed

end
